theory Spec2Isabelle
  imports Main "HOL-Library.Sublist"
begin

section \<open>The Arrow filesystem wrapper (fsspec/implementations/arrow.py)\<close>

text \<open>
  A shallow embedding of \<^verbatim>\<open>ArrowFSWrapper\<close>: the adapter that lets callers of
  the generic filesystem interface use a pyarrow filesystem (the provider). Python
  exceptions are values of type \<open>exn\<close>, and a call that may raise returns
  \<open>exn + 'a\<close> with \<open>Inl\<close> for the raised exception. The provider is external:
  it is a record of state transformers over an arbitrary state \<open>'s\<close>, so every
  theorem about the adapter holds for every provider.
\<close>

subsection \<open>Python exceptions\<close>

text \<open>
  The values an exception's \<^verbatim>\<open>args\<close> tuple may hold. The wrapper only asks
  whether the first one is a \<^verbatim>\<open>str\<close>.
\<close>

datatype pyval = PStr string | PInt int | PNone | PObj string

text \<open>
  The exception classes the module tells apart. \<^verbatim>\<open>FileNotFoundError\<close> and the
  classes under \<open>OtherOSError\<close> (\<^verbatim>\<open>PermissionError\<close>, ...) are subclasses of
  \<^verbatim>\<open>OSError\<close>; \<open>OtherException\<close> stands for every class outside the
  \<^verbatim>\<open>OSError\<close> family other than \<^verbatim>\<open>ValueError\<close>, among them the
  \<^verbatim>\<open>BaseException\<close>s such as \<^verbatim>\<open>KeyboardInterrupt\<close>.
\<close>

datatype exn_class =
    OSError
  | FileNotFoundError
  | OtherOSError string
  | ValueError
  | OtherException string

text \<open>
  An exception: its class, its \<^verbatim>\<open>args\<close> tuple and, for the \<^verbatim>\<open>OSError\<close>
  family, the \<^verbatim>\<open>filename\<close> attribute (Python takes a third constructor
  argument out of \<^verbatim>\<open>args\<close> and stores it there).
\<close>

datatype exn = Exn (exn_cls: exn_class) (exn_args: "pyval list") (exn_filename: "string option")

text \<open>\<^verbatim>\<open>isinstance(e, OSError)\<close> and \<^verbatim>\<open>isinstance(e, FileNotFoundError)\<close>.\<close>

fun is_OSError :: "exn \<Rightarrow> bool" where
  "is_OSError (Exn OSError _ _) = True"
| "is_OSError (Exn FileNotFoundError _ _) = True"
| "is_OSError (Exn (OtherOSError _) _ _) = True"
| "is_OSError (Exn ValueError _ _) = False"
| "is_OSError (Exn (OtherException _) _ _) = False"

definition is_FileNotFoundError :: "exn \<Rightarrow> bool" where
  "is_FileNotFoundError e = (exn_cls e = FileNotFoundError)"

definition ENOENT :: int where
  "ENOENT = 2"

text \<open>\<^verbatim>\<open>os.strerror(errno.ENOENT)\<close> (the text of the C library on Linux).\<close>

definition strerror_ENOENT :: string where
  "strerror_ENOENT = ''No such file or directory''"

subsection \<open>Strings\<close>

text \<open>\<^verbatim>\<open>sub in s\<close>: \<open>sub\<close> occurs in \<open>s\<close> as a contiguous substring.\<close>

fun str_contains :: "string \<Rightarrow> string \<Rightarrow> bool" where
  "str_contains sub [] = (sub = [])"
| "str_contains sub (c # cs) = (prefix sub (c # cs) \<or> str_contains sub cs)"

text \<open>
  The third component of \<^verbatim>\<open>s.partition(sep)\<close>: the text after the first (leftmost)
  occurrence of \<open>sep\<close>, and the empty string when \<open>sep\<close> does not occur.
\<close>

fun partition_after :: "string \<Rightarrow> string \<Rightarrow> string" where
  "partition_after sep [] = []"
| "partition_after sep (c # cs) =
     (if prefix sep (c # cs) then drop (length sep) (c # cs) else partition_after sep cs)"

text \<open>\<^verbatim>\<open>s.rstrip("/")\<close>: \<open>s\<close> without its trailing slashes.\<close>

definition rstrip_slash :: "string \<Rightarrow> string" where
  "rstrip_slash s = rev (dropWhile (\<lambda>c. c = CHR ''/'') (rev s))"

subsection \<open>The exception normaliser: \<^verbatim>\<open>wrap_exceptions\<close>\<close>

text \<open>
  A call of the adapter runs on the provider's state and returns what it returned or
  raised, with the state it left.
\<close>

type_synonym ('s, 'a) io = "'s \<Rightarrow> (exn + 'a) \<times> 's"

text \<open>
  The \<^verbatim>\<open>except OSError as exception\<close> clause of the wrapper: the exception that
  leaves it when \<open>e\<close> was raised inside. An exception outside the \<^verbatim>\<open>OSError\<close>
  family is not caught at all.
\<close>

definition reraise :: "exn \<Rightarrow> exn" where
  "reraise e =
     (if \<not> is_OSError e then e
      else case exn_args e of
             [] \<Rightarrow> e
           | message # args \<Rightarrow>
               (case message of
                  PStr m \<Rightarrow>
                    if str_contains ''does not exist'' m
                    then Exn FileNotFoundError [PInt ENOENT, PStr m] None
                    else e
                | _ \<Rightarrow> e))"

definition wrap_exceptions :: "('s, 'a) io \<Rightarrow> ('s, 'a) io" where
  "wrap_exceptions func s =
     (case func s of
        (Inl e, s') \<Rightarrow> (Inl (reraise e), s')
      | (Inr v, s') \<Rightarrow> (Inr v, s'))"

subsection \<open>The path normaliser: \<^verbatim>\<open>_strip_protocol\<close>\<close>

text \<open>
  Paths are strings here, on which \<^verbatim>\<open>stringify_path\<close> is the identity.
\<close>

definition strip_protocol :: "string \<Rightarrow> string" where
  "strip_protocol path =
     (if str_contains ''://'' path then partition_after ''://'' path else path)"

subsection \<open>The entry translator: \<^verbatim>\<open>_make_entry\<close>\<close>

text \<open>\<^verbatim>\<open>pyarrow.fs.FileType\<close>.\<close>

datatype FileType = NotFound | Unknown | File | Directory

text \<open>
  \<^verbatim>\<open>pyarrow.fs.FileInfo\<close>, the provider's record for one path. The size is
  \<^verbatim>\<open>None\<close> for what is not a regular file, and the modification time is a
  timestamp or \<^verbatim>\<open>None\<close>; both pass through the adapter unchanged.
\<close>

record FileInfo =
  fi_path :: string
  fi_type :: FileType
  fi_size :: "int option"
  fi_mtime :: "int option"

text \<open>The dictionary \<^verbatim>\<open>{"name", "size", "type", "mtime"}\<close> of the generic interface.\<close>

record entry =
  e_name :: string
  e_size :: "int option"
  e_type :: string
  e_mtime :: "int option"

definition make_entry :: "FileInfo \<Rightarrow> exn + entry" where
  "make_entry info =
     (if fi_type info = Directory then
        Inr \<lparr>e_name = fi_path info, e_size = fi_size info,
             e_type = ''directory'', e_mtime = fi_mtime info\<rparr>
      else if fi_type info = File then
        Inr \<lparr>e_name = fi_path info, e_size = fi_size info,
             e_type = ''file'', e_mtime = fi_mtime info\<rparr>
      else if fi_type info = NotFound then
        Inl (Exn FileNotFoundError [PInt ENOENT, PStr strerror_ENOENT] (Some (fi_path info)))
      else
        Inr \<lparr>e_name = fi_path info, e_size = fi_size info,
             e_type = ''other'', e_mtime = fi_mtime info\<rparr>)"

subsection \<open>The provider\<close>

text \<open>
  The primitives of \<^verbatim>\<open>pyarrow.fs.FileSystem\<close> the adapter calls, each a
  transformer of the provider's state that returns or raises. \<open>'h\<close> is the type of
  the provider's stream objects. \<open>stream_close\<close> is \<^verbatim>\<open>close()\<close> of such a
  stream, which returns \<^verbatim>\<open>None\<close>, and \<open>copyfileobj\<close> is
  \<^verbatim>\<open>shutil.copyfileobj\<close> on two of them: the reads from the first and the writes
  to the second, up to the end of the first. Every primitive returns or raises: a call
  that never ends (a copy from a stream without end) is no execution here.
\<close>

record ('s, 'h) provider =
  get_file_info_selector :: "string \<Rightarrow> ('s, FileInfo list) io"
  get_file_info :: "string list \<Rightarrow> ('s, FileInfo list) io"
  open_input_stream :: "string \<Rightarrow> ('s, 'h) io"
  open_output_stream :: "string \<Rightarrow> ('s, 'h) io"
  move :: "string \<Rightarrow> string \<Rightarrow> ('s, unit) io"
  delete_file :: "string \<Rightarrow> ('s, unit) io"
  delete_dir :: "string \<Rightarrow> ('s, unit) io"
  create_dir :: "string \<Rightarrow> bool \<Rightarrow> ('s, unit) io"
  stream_close :: "'h \<Rightarrow> ('s, unit) io"
  copyfileobj :: "'h \<Rightarrow> 'h \<Rightarrow> ('s, unit) io"

text \<open>Sequencing: the second call runs only when the first returned.\<close>

definition io_bind :: "('s, 'a) io \<Rightarrow> ('a \<Rightarrow> ('s, 'b) io) \<Rightarrow> ('s, 'b) io" where
  "io_bind m f s = (case m s of (Inl e, s') \<Rightarrow> (Inl e, s') | (Inr v, s') \<Rightarrow> f v s')"

definition io_return :: "'a \<Rightarrow> ('s, 'a) io" where
  "io_return v s = (Inr v, s)"

definition io_raise :: "exn \<Rightarrow> ('s, 'a) io" where
  "io_raise e s = (Inl e, s)"

subsection \<open>The file handle: \<^verbatim>\<open>ArrowFile\<close>\<close>

text \<open>
  The handle keeps the path, the mode, the provider's stream and the block size
  (the back reference to the adapter and the keyword arguments are left out).
  \<^verbatim>\<open>mirror_from\<close> forwards \<^verbatim>\<open>close\<close> to the stream.
\<close>

record 'h ArrowFile =
  af_path :: string
  af_mode :: string
  af_stream :: 'h
  af_block_size :: "int option"

text \<open>
  \<^verbatim>\<open>with f as v: body\<close> for a handle \<open>f\<close>: \<^verbatim>\<open>__enter__\<close> returns the
  handle, and \<^verbatim>\<open>__exit__\<close> closes the stream on every exit path. What
  \<^verbatim>\<open>close\<close> raises replaces what the body raised; its result \<^verbatim>\<open>None\<close>
  suppresses nothing.
\<close>

definition with_file :: "('s, 'h) provider \<Rightarrow> 'h ArrowFile \<Rightarrow> ('s, 'a) io \<Rightarrow> ('s, 'a) io" where
  "with_file P f body s =
     (case body s of
        (r, s1) \<Rightarrow>
          (case stream_close P (af_stream f) s1 of
             (Inl e, s2) \<Rightarrow> (Inl e, s2)
           | (Inr _, s2) \<Rightarrow> (r, s2)))"

subsection \<open>The adapter: \<^verbatim>\<open>ArrowFSWrapper\<close>\<close>

text \<open>What \<^verbatim>\<open>ls\<close> returns: the entries when \<^verbatim>\<open>detail\<close> is set, else their names.\<close>

datatype listing = Detail "entry list" | Names "string list"

text \<open>
  The list comprehension of \<^verbatim>\<open>ls\<close>: the entries in the provider's order, up to
  the first one that raises.
\<close>

fun make_entries :: "FileInfo list \<Rightarrow> exn + entry list" where
  "make_entries [] = Inr []"
| "make_entries (i # infos) =
     (case make_entry i of
        Inl e \<Rightarrow> Inl e
      | Inr x \<Rightarrow> (case make_entries infos of Inl e \<Rightarrow> Inl e | Inr xs \<Rightarrow> Inr (x # xs)))"

definition ls :: "('s, 'h) provider \<Rightarrow> string \<Rightarrow> bool \<Rightarrow> ('s, listing) io" where
  "ls P path detail =
     io_bind (get_file_info_selector P path) (\<lambda>infos.
       case make_entries infos of
         Inl e \<Rightarrow> io_raise e
       | Inr entries \<Rightarrow>
           if detail then io_return (Detail entries)
           else io_return (Names (map e_name entries)))"

text \<open>
  \<^verbatim>\<open>[info] = self.fs.get_file_info([path])\<close> raises \<^verbatim>\<open>ValueError\<close> unless the
  provider returned exactly one record.
\<close>

definition unpack_one :: "'a list \<Rightarrow> exn + 'a" where
  "unpack_one xs =
     (case xs of
        [] \<Rightarrow> Inl (Exn ValueError [PStr ''not enough values to unpack (expected 1, got 0)''] None)
      | [x] \<Rightarrow> Inr x
      | _ \<Rightarrow> Inl (Exn ValueError [PStr ''too many values to unpack (expected 1)''] None))"

definition info :: "('s, 'h) provider \<Rightarrow> string \<Rightarrow> ('s, entry) io" where
  "info P path =
     (let path = strip_protocol path in
      io_bind (get_file_info P [path]) (\<lambda>infos.
        case unpack_one infos of
          Inl e \<Rightarrow> io_raise e
        | Inr i \<Rightarrow> (\<lambda>s. (make_entry i, s))))"

definition exists :: "('s, 'h) provider \<Rightarrow> string \<Rightarrow> ('s, bool) io" where
  "exists P path s =
     (let path = strip_protocol path in
      case info P path s of
        (Inl e, s') \<Rightarrow> if is_FileNotFoundError e then (Inr False, s') else (Inl e, s')
      | (Inr _, s') \<Rightarrow> (Inr True, s'))"

text \<open>
  \<^verbatim>\<open>repr\<close> of the mode in the message of \<^verbatim>\<open>_open\<close>, for a mode of ASCII
  characters: in apostrophes, or in double quotes when the mode holds an apostrophe
  and no double quote; the backslash and the enclosing quote are escaped with a
  backslash, tab, newline and carriage return are written \<^verbatim>\<open>\t\<close>, \<^verbatim>\<open>\n\<close>,
  \<^verbatim>\<open>\r\<close>, and every other control character is written \<^verbatim>\<open>\xNN\<close> with two
  hexadecimal digits.
\<close>

definition hex_digit :: "nat \<Rightarrow> char" where
  "hex_digit n = ''0123456789abcdef'' ! (n mod 16)"

definition repr_char :: "char \<Rightarrow> char \<Rightarrow> string" where
  "repr_char quote c =
     (if c = quote \<or> c = CHR 0x5C then [CHR 0x5C, c]
      else if c = CHR 0x09 then [CHR 0x5C, CHR ''t'']
      else if c = CHR 0x0A then [CHR 0x5C, CHR ''n'']
      else if c = CHR 0x0D then [CHR 0x5C, CHR ''r'']
      else if (of_char c :: nat) < 32 \<or> (of_char c :: nat) = 127
        then [CHR 0x5C, CHR ''x'', hex_digit (of_char c div 16), hex_digit (of_char c)]
      else [c])"

definition repr_str :: "string \<Rightarrow> string" where
  "repr_str m =
     (let quote = (if CHR 0x27 \<in> set m \<and> CHR 0x22 \<notin> set m then CHR 0x22 else CHR 0x27)
      in quote # concat (map (repr_char quote) m) @ [quote])"

text \<open>The method \<^verbatim>\<open>_open\<close>, before and after its decorator.\<close>

definition arrow_open_body ::
  "('s, 'h) provider \<Rightarrow> string \<Rightarrow> string \<Rightarrow> int option \<Rightarrow> ('s, 'h ArrowFile) io" where
  "arrow_open_body P path mode block_size =
     (if mode = ''rb'' then
        io_bind (open_input_stream P path) (\<lambda>stream.
          io_return \<lparr>af_path = path, af_mode = mode, af_stream = stream,
                     af_block_size = block_size\<rparr>)
      else if mode = ''wb'' then
        io_bind (open_output_stream P path) (\<lambda>stream.
          io_return \<lparr>af_path = path, af_mode = mode, af_stream = stream,
                     af_block_size = block_size\<rparr>)
      else
        io_raise (Exn ValueError
          [PStr (''unsupported mode for Arrow filesystem: '' @ repr_str mode)] None))"

definition arrow_open ::
  "('s, 'h) provider \<Rightarrow> string \<Rightarrow> string \<Rightarrow> int option \<Rightarrow> ('s, 'h ArrowFile) io" where
  "arrow_open P path mode block_size = wrap_exceptions (arrow_open_body P path mode block_size)"

text \<open>
  Modelled from the spec: the public \<^verbatim>\<open>open\<close>, which the class inherits from
  \<^verbatim>\<open>AbstractFileSystem\<close> (fsspec/spec.py, not among the sources). As every method
  of the adapter it normalises the path; then it opens the provider stream for the
  binary mode and wraps it in a handle, which is \<^verbatim>\<open>_open\<close>.
\<close>

definition fs_open ::
  "('s, 'h) provider \<Rightarrow> string \<Rightarrow> string \<Rightarrow> int option \<Rightarrow> ('s, 'h ArrowFile) io" where
  "fs_open P path mode block_size = arrow_open P (strip_protocol path) mode block_size"

text \<open>
  \<^verbatim>\<open>cp_file\<close>. The \<^verbatim>\<open>except BaseException\<close> clause: delete the temporary
  file through the provider, let only a \<^verbatim>\<open>FileNotFoundError\<close> of that delete
  pass (\<^verbatim>\<open>suppress\<close>), and raise again what was caught.
\<close>

definition cleanup :: "('s, 'h) provider \<Rightarrow> string \<Rightarrow> exn \<Rightarrow> ('s, 'a) io" where
  "cleanup P tmp_fname e s =
     (case delete_file P tmp_fname s of
        (Inl d, s') \<Rightarrow> if is_FileNotFoundError d then (Inl e, s') else (Inl d, s')
      | (Inr _, s') \<Rightarrow> (Inl e, s'))"

text \<open>The body of the \<^verbatim>\<open>try\<close>: copy into the temporary file, then move it.\<close>

definition copy_to_temp ::
  "('s, 'h) provider \<Rightarrow> 'h ArrowFile \<Rightarrow> string \<Rightarrow> ('s, unit) io" where
  "copy_to_temp P lstream tmp_fname =
     io_bind (fs_open P tmp_fname ''wb'' None) (\<lambda>rstream.
       with_file P rstream (copyfileobj P (af_stream lstream) (af_stream rstream)))"

definition try_block ::
  "('s, 'h) provider \<Rightarrow> 'h ArrowFile \<Rightarrow> string \<Rightarrow> string \<Rightarrow> ('s, unit) io" where
  "try_block P lstream tmp_fname path2 =
     io_bind (copy_to_temp P lstream tmp_fname) (\<lambda>_. move P tmp_fname path2)"

definition try_except ::
  "('s, 'h) provider \<Rightarrow> 'h ArrowFile \<Rightarrow> string \<Rightarrow> string \<Rightarrow> ('s, unit) io" where
  "try_except P lstream tmp_fname path2 s =
     (case try_block P lstream tmp_fname path2 s of
        (Inl e, s') \<Rightarrow> cleanup P tmp_fname e s'
      | (Inr v, s') \<Rightarrow> (Inr v, s'))"

text \<open>
  The name of the temporary file, \<^verbatim>\<open>"/".join([self._parent(path2),
  f".tmp.{secrets.token_hex(16)}"])\<close>. The inherited \<^verbatim>\<open>_parent\<close> (fsspec/spec.py,
  not among the sources) and the random token are parameters.
\<close>

definition tmp_name :: "(string \<Rightarrow> string) \<Rightarrow> string \<Rightarrow> string \<Rightarrow> string" where
  "tmp_name parent token path2 = parent path2 @ ''/'' @ (''.tmp.'' @ token)"

definition cp_file_body ::
  "('s, 'h) provider \<Rightarrow> (string \<Rightarrow> string) \<Rightarrow> string \<Rightarrow> string \<Rightarrow> string \<Rightarrow> ('s, unit) io" where
  "cp_file_body P parent token path1 path2 =
     (let path1 = rstrip_slash (strip_protocol path1);
          path2 = rstrip_slash (strip_protocol path2)
      in io_bind (arrow_open P path1 ''rb'' None) (\<lambda>lstream.
           with_file P lstream
             (try_except P lstream (tmp_name parent token path2) path2)))"

definition cp_file ::
  "('s, 'h) provider \<Rightarrow> (string \<Rightarrow> string) \<Rightarrow> string \<Rightarrow> string \<Rightarrow> string \<Rightarrow> ('s, unit) io" where
  "cp_file P parent token path1 path2 = wrap_exceptions (cp_file_body P parent token path1 path2)"

definition mv :: "('s, 'h) provider \<Rightarrow> string \<Rightarrow> string \<Rightarrow> ('s, unit) io" where
  "mv P path1 path2 =
     wrap_exceptions
       (let path1 = rstrip_slash (strip_protocol path1);
            path2 = rstrip_slash (strip_protocol path2)
        in move P path1 path2)"

text \<open>\<^verbatim>\<open>mv_file = mv\<close>.\<close>

definition mv_file :: "('s, 'h) provider \<Rightarrow> string \<Rightarrow> string \<Rightarrow> ('s, unit) io" where
  "mv_file = mv"

definition rm_file :: "('s, 'h) provider \<Rightarrow> string \<Rightarrow> ('s, unit) io" where
  "rm_file P path = wrap_exceptions (let path = strip_protocol path in delete_file P path)"

text \<open>
  \<^verbatim>\<open>rm\<close>. The inherited \<^verbatim>\<open>isdir\<close> (fsspec/spec.py, not among the sources) is
  a parameter: any call on the provider's state that answers whether the path is a
  directory, or raises. \<^verbatim>\<open>maxdepth\<close> is accepted and never read.
\<close>

text \<open>
  Modelled from the spec: the inherited \<^verbatim>\<open>isdir\<close> (fsspec/spec.py, not among the
  sources), by which \<^verbatim>\<open>rm\<close> tells whether the target is a directory. The target
  is a directory when \<^verbatim>\<open>info\<close> gives an entry of the type \<^verbatim>\<open>directory\<close> for
  it, and it is none when \<^verbatim>\<open>info\<close> fails with an error of the \<^verbatim>\<open>OSError\<close>
  family, as for a path the provider reports missing.
\<close>

definition inherited_isdir :: "('s, 'h) provider \<Rightarrow> string \<Rightarrow> ('s, bool) io" where
  "inherited_isdir P path s =
     (case info P path s of
        (Inl e, s') \<Rightarrow> if is_OSError e then (Inr False, s') else (Inl e, s')
      | (Inr entry, s') \<Rightarrow> (Inr (e_type entry = ''directory''), s'))"

definition rm_body ::
  "('s, 'h) provider \<Rightarrow> (string \<Rightarrow> ('s, bool) io) \<Rightarrow> string \<Rightarrow> bool \<Rightarrow> int option \<Rightarrow> ('s, unit) io" where
  "rm_body P isdir path recursive maxdepth =
     (let path = rstrip_slash (strip_protocol path) in
      io_bind (isdir path) (\<lambda>d.
        if d then
          (if recursive then delete_dir P path
           else io_raise (Exn ValueError
                  [PStr (''Can'' @ [CHR 0x27] @ ''t delete directories without recursive=False'')] None))
        else delete_file P path))"

definition rm ::
  "('s, 'h) provider \<Rightarrow> (string \<Rightarrow> ('s, bool) io) \<Rightarrow> string \<Rightarrow> bool \<Rightarrow> int option \<Rightarrow> ('s, unit) io" where
  "rm P isdir path recursive maxdepth = wrap_exceptions (rm_body P isdir path recursive maxdepth)"

definition makedirs :: "('s, 'h) provider \<Rightarrow> string \<Rightarrow> bool \<Rightarrow> ('s, unit) io" where
  "makedirs P path exist_ok =
     wrap_exceptions (let path = strip_protocol path in create_dir P path True)"

definition mkdir :: "('s, 'h) provider \<Rightarrow> string \<Rightarrow> bool \<Rightarrow> ('s, unit) io" where
  "mkdir P path create_parents =
     wrap_exceptions
       (let path = strip_protocol path in
        if create_parents then makedirs P path True
        else create_dir P path False)"

definition rmdir :: "('s, 'h) provider \<Rightarrow> string \<Rightarrow> ('s, unit) io" where
  "rmdir P path = wrap_exceptions (let path = strip_protocol path in delete_dir P path)"

subsection \<open>Providers for concrete runs\<close>

text \<open>
  The calls an adapter can make on a provider, to write down what a run did.
\<close>

datatype 'h call =
    GetFileInfoSelector string
  | GetFileInfo "string list"
  | OpenInputStream string
  | OpenOutputStream string
  | Move string string
  | DeleteFile string
  | DeleteDir string
  | CreateDir string bool
  | StreamClose 'h
  | CopyFileObj 'h 'h

text \<open>
  \<open>recording P\<close> behaves as \<open>P\<close> and appends every call it receives to a log kept
  beside the state of \<open>P\<close>.
\<close>

definition log_call :: "'h call \<Rightarrow> ('s, 'a) io \<Rightarrow> ('s \<times> 'h call list, 'a) io" where
  "log_call c m = (\<lambda>(s, calls). case m s of (r, s') \<Rightarrow> (r, (s', calls @ [c])))"

definition recording :: "('s, 'h) provider \<Rightarrow> ('s \<times> 'h call list, 'h) provider" where
  "recording P =
     \<lparr>get_file_info_selector = (\<lambda>p. log_call (GetFileInfoSelector p) (get_file_info_selector P p)),
      get_file_info = (\<lambda>ps. log_call (GetFileInfo ps) (get_file_info P ps)),
      open_input_stream = (\<lambda>p. log_call (OpenInputStream p) (open_input_stream P p)),
      open_output_stream = (\<lambda>p. log_call (OpenOutputStream p) (open_output_stream P p)),
      move = (\<lambda>a b. log_call (Move a b) (move P a b)),
      delete_file = (\<lambda>p. log_call (DeleteFile p) (delete_file P p)),
      delete_dir = (\<lambda>p. log_call (DeleteDir p) (delete_dir P p)),
      create_dir = (\<lambda>p r. log_call (CreateDir p r) (create_dir P p r)),
      stream_close = (\<lambda>h. log_call (StreamClose h) (stream_close P h)),
      copyfileobj = (\<lambda>a b. log_call (CopyFileObj a b) (copyfileobj P a b))\<rparr>"

text \<open>
  \<open>memory_fs fault\<close> is a provider that keeps regular files in memory: its state
  maps a path to the content of the file there. A call for which \<open>fault\<close> gives an
  exception raises it; a copy that fails has written the first byte by then. The stream
  of a path is named by the path, opening for write creates or truncates the file, a
  move replaces the destination in one step, a selector lists nothing (there are no
  directories), and \<^verbatim>\<open>delete_file\<close> and \<^verbatim>\<open>move\<close> raise
  \<^verbatim>\<open>FileNotFoundError\<close> for a path without a file.
\<close>

type_synonym files = "string \<Rightarrow> string option"

definition stat :: "files \<Rightarrow> string \<Rightarrow> FileInfo" where
  "stat fs p =
     (case fs p of
        None \<Rightarrow> \<lparr>fi_path = p, fi_type = NotFound, fi_size = None, fi_mtime = None\<rparr>
      | Some c \<Rightarrow> \<lparr>fi_path = p, fi_type = File, fi_size = Some (int (length c)), fi_mtime = None\<rparr>)"

definition content :: "files \<Rightarrow> string \<Rightarrow> string" where
  "content fs p = (case fs p of None \<Rightarrow> [] | Some c \<Rightarrow> c)"

definition no_such_file :: "string \<Rightarrow> exn" where
  "no_such_file p = Exn FileNotFoundError [PInt ENOENT, PStr strerror_ENOENT] (Some p)"

definition respond :: "('h call \<Rightarrow> exn option) \<Rightarrow> 'h call \<Rightarrow> ('s, 'a) io \<Rightarrow> ('s, 'a) io" where
  "respond fault c m s = (case fault c of Some e \<Rightarrow> (Inl e, s) | None \<Rightarrow> m s)"

definition memory_fs :: "(string call \<Rightarrow> exn option) \<Rightarrow> (files, string) provider" where
  "memory_fs fault =
     \<lparr>get_file_info_selector = (\<lambda>p. respond fault (GetFileInfoSelector p) (\<lambda>fs. (Inr [], fs))),
      get_file_info = (\<lambda>ps. respond fault (GetFileInfo ps) (\<lambda>fs. (Inr (map (stat fs) ps), fs))),
      open_input_stream = (\<lambda>p. respond fault (OpenInputStream p) (\<lambda>fs. (Inr p, fs))),
      open_output_stream =
        (\<lambda>p. respond fault (OpenOutputStream p) (\<lambda>fs. (Inr p, fs(p \<mapsto> [])))),
      move =
        (\<lambda>a b. respond fault (Move a b) (\<lambda>fs.
           case fs a of
             None \<Rightarrow> (Inl (no_such_file a), fs)
           | Some c \<Rightarrow> (Inr (), (fs(a := None))(b \<mapsto> c)))),
      delete_file =
        (\<lambda>p. respond fault (DeleteFile p) (\<lambda>fs.
           case fs p of
             None \<Rightarrow> (Inl (no_such_file p), fs)
           | Some c \<Rightarrow> (Inr (), fs(p := None)))),
      delete_dir = (\<lambda>p. respond fault (DeleteDir p) (\<lambda>fs. (Inr (), fs))),
      create_dir = (\<lambda>p r. respond fault (CreateDir p r) (\<lambda>fs. (Inr (), fs))),
      stream_close = (\<lambda>h. respond fault (StreamClose h) (\<lambda>fs. (Inr (), fs))),
      copyfileobj =
        (\<lambda>a b fs.
           case fault (CopyFileObj a b) of
             Some e \<Rightarrow> (Inl e, fs(b \<mapsto> take 1 (content fs a)))
           | None \<Rightarrow> (Inr (), fs(b \<mapsto> content fs a)))\<rparr>"

text \<open>
  \<open>with_dirs dirs P\<close> is \<open>P\<close> with directories: a lookup reports the paths of
  \<open>dirs\<close> as directories.
\<close>

definition as_directory :: "string list \<Rightarrow> FileInfo \<Rightarrow> FileInfo" where
  "as_directory dirs i =
     (if fi_path i \<in> set dirs then i\<lparr>fi_type := Directory, fi_size := None\<rparr> else i)"

definition with_dirs :: "string list \<Rightarrow> ('s, 'h) provider \<Rightarrow> ('s, 'h) provider" where
  "with_dirs dirs P =
     P\<lparr>get_file_info :=
         (\<lambda>ps s. case get_file_info P ps s of
                    (Inl e, s') \<Rightarrow> (Inl e, s')
                  | (Inr infos, s') \<Rightarrow> (Inr (map (as_directory dirs) infos), s'))\<rparr>"

text \<open>An \<^verbatim>\<open>isdir\<close> for concrete runs: the one directory is \<open>d\<close>.\<close>

definition isdir_only :: "string \<Rightarrow> string \<Rightarrow> ('s, bool) io" where
  "isdir_only d path s = (Inr (path = d), s)"

text \<open>
  A run of \<^verbatim>\<open>cp_file\<close>: the source \<^verbatim>\<open>/a/x\<close>, the destination
  \<^verbatim>\<open>/d/y\<close> with an older content, a token as \<^verbatim>\<open>secrets.token_hex(16)\<close>
  gives them, and the temporary file it names in \<^verbatim>\<open>/d\<close>.
\<close>

definition example_token :: string where
  "example_token = ''0123456789abcdef0123456789abcdef''"

definition example_tmp :: string where
  "example_tmp = ''/d/.tmp.0123456789abcdef0123456789abcdef''"

definition example_files :: files where
  "example_files = [''/a/x'' \<mapsto> ''data'', ''/d/y'' \<mapsto> ''old'']"

subsection \<open>Notions the properties are stated with\<close>

text \<open>
  The errors the normaliser reclassifies: of the \<^verbatim>\<open>OSError\<close> family, with a
  first argument that is a string in which \<^verbatim>\<open>does not exist\<close> occurs.
\<close>

definition reclassifiable :: "exn \<Rightarrow> bool" where
  "reclassifiable e =
     (is_OSError e \<and>
      (case exn_args e of
         PStr m # rest \<Rightarrow> str_contains ''does not exist'' m
       | _ \<Rightarrow> False))"

text \<open>
  The \<^verbatim>\<open>FileNotFoundError(errno.ENOENT, message)\<close> the normaliser raises for such
  an error.
\<close>

definition not_found_of :: "exn \<Rightarrow> exn" where
  "not_found_of e = Exn FileNotFoundError [PInt ENOENT, hd (exn_args e)] None"

text \<open>
  \<open>grows m\<close>: on a provider that records its calls, the call \<open>m\<close> only appends
  to the log.
\<close>

definition grows :: "('s \<times> 'c list, 'a) io \<Rightarrow> bool" where
  "grows m = (\<forall>s calls. \<exists>rest. snd (snd (m (s, calls))) = calls @ rest)"

text \<open>
  \<open>keeps obs m\<close>: the call \<open>m\<close> leaves what \<open>obs\<close> observes of the provider's
  state as it was, whether it returns or raises.
\<close>

definition keeps :: "('s \<Rightarrow> 'o) \<Rightarrow> ('s, 'a) io \<Rightarrow> bool" where
  "keeps obs m = (\<forall>s. obs (snd (m s)) = obs s)"

text \<open>
  What \<^verbatim>\<open>cp_file\<close> leaves to the provider, for an observation \<open>obs\<close> of the
  destination \<open>path2\<close>: the calls on the temporary file \<open>tmp\<close> and on the two
  streams leave the destination as it was, and the move of the temporary file either
  leaves it as it was or makes it \<open>replaced s\<close>, the complete temporary file of the
  state \<open>s\<close> it ran in. \<open>lh\<close> is the stream of the source.
\<close>

definition leaves_destination ::
  "('s, 'h) provider \<Rightarrow> ('s \<Rightarrow> 'o) \<Rightarrow> ('s \<Rightarrow> 'o) \<Rightarrow> 'h \<Rightarrow> string \<Rightarrow> string \<Rightarrow> bool" where
  "leaves_destination P obs replaced lh tmp path2 =
     (keeps obs (open_output_stream P (strip_protocol tmp)) \<and>
      (\<forall>h s s'. open_output_stream P (strip_protocol tmp) s = (Inr h, s') \<longrightarrow>
         keeps obs (copyfileobj P lh h) \<and> keeps obs (stream_close P h)) \<and>
      keeps obs (delete_file P tmp) \<and>
      keeps obs (stream_close P lh) \<and>
      (\<forall>s. obs (snd (move P tmp path2 s)) = obs s \<or>
           obs (snd (move P tmp path2 s)) = replaced s))"

section \<open>Properties\<close>

lemmas io_defs = io_bind_def io_return_def io_raise_def wrap_exceptions_def

lemmas double_defs = recording_def log_call_def memory_fs_def respond_def

text \<open>The example run: the temporary file is the one the parameters name.\<close>

lemma example_tmp_name: "tmp_name (\<lambda>p. ''/d'') example_token x = example_tmp"
  by (simp add: tmp_name_def example_token_def example_tmp_def)

lemma example_tmp_strip: "strip_protocol example_tmp = example_tmp"
  by (simp add: strip_protocol_def example_tmp_def)

lemma example_tmp_neq:
  "example_tmp \<noteq> ''/d/y''" "example_tmp \<noteq> ''/a/x''"
  "''/d/y'' \<noteq> example_tmp" "''/a/x'' \<noteq> example_tmp"
  by (simp_all add: example_tmp_def)


subsection \<open>Strings\<close>

text \<open>The two string functions compute what their Python counterparts mean.\<close>

lemma str_contains_sublist: "str_contains sub s = sublist sub s"
  by (induction s) (auto simp: sublist_Cons_right)

lemma partition_after_decomp:
  "str_contains sep s \<Longrightarrow> \<exists>a. s = a @ sep @ partition_after sep s"
proof (induction s)
  case Nil
  then show ?case by simp
next
  case (Cons c cs)
  show ?case
  proof (cases "prefix sep (c # cs)")
    case True
    then have "c # cs = sep @ drop (length sep) (c # cs)"
      by (metis append_eq_conv_conj prefix_def)
    then have "c # cs = [] @ sep @ partition_after sep (c # cs)" using True by simp
    then show ?thesis by blast
  next
    case False
    with Cons obtain a where "cs = a @ sep @ partition_after sep cs" by auto
    then have "c # cs = (c # a) @ sep @ partition_after sep (c # cs)" using False by simp
    then show ?thesis by blast
  qed
qed

lemma partition_after_shorter:
  "sep \<noteq> [] \<Longrightarrow> str_contains sep s \<Longrightarrow> length (partition_after sep s) < length s"
proof (induction s)
  case Nil
  then show ?case by simp
next
  case (Cons c cs)
  from \<open>sep \<noteq> []\<close> have pos: "0 < length sep" by simp
  show ?case
  proof (cases "prefix sep (c # cs)")
    case True
    then show ?thesis using pos by simp
  next
    case False
    with Cons show ?thesis by auto
  qed
qed

subsection \<open>The path normaliser\<close>

text \<open>
  C4. For a path that contains the marker \<^verbatim>\<open>://\<close>, stripping the protocol twice
  gives what stripping it once gives exactly when the text after the first marker
  holds no further marker: only the first marker is cut at, so a second one is cut at
  by the second application.
\<close>

theorem strip_protocol_idempotent_iff:
  "str_contains ''://'' p \<Longrightarrow>
     (strip_protocol (strip_protocol p) = strip_protocol p)
       = (\<not> str_contains ''://'' (partition_after ''://'' p))"
proof -
  assume p: "str_contains ''://'' p"
  let ?q = "partition_after ''://'' p"
  have q: "strip_protocol p = ?q" using p by (simp add: strip_protocol_def)
  show ?thesis
  proof (cases "str_contains ''://'' ?q")
    case True
    then have "length (strip_protocol ?q) < length ?q"
      using partition_after_shorter[of "''://''" ?q] by (simp add: strip_protocol_def)
    then have "strip_protocol ?q \<noteq> ?q" by auto
    then show ?thesis using True q by simp
  next
    case False
    then show ?thesis using q by (simp add: strip_protocol_def)
  qed
qed

theorem strip_protocol_idempotent_iff_witness:
  "str_contains ''://'' ''hdfs://host/dir'' \<and>
   strip_protocol (strip_protocol ''hdfs://host/dir'') = strip_protocol ''hdfs://host/dir'' \<and>
   strip_protocol ''hdfs://host/dir'' = ''host/dir''"
proof -
  have h: "str_contains ''://'' ''hdfs://host/dir''" by simp
  have n: "\<not> str_contains ''://'' (partition_after ''://'' ''hdfs://host/dir'')" by simp
  show ?thesis using h n strip_protocol_idempotent_iff [OF h] by (simp add: strip_protocol_def)
qed

text \<open>
  The path \<^verbatim>\<open>a://b://c\<close> contains the marker, and the second application cuts
  again: once gives \<^verbatim>\<open>b://c\<close>, twice gives \<^verbatim>\<open>c\<close>.
\<close>

theorem strip_protocol_twice_counterexample:
  "str_contains ''://'' ''a://b://c'' \<and>
   strip_protocol ''a://b://c'' = ''b://c'' \<and>
   strip_protocol (strip_protocol ''a://b://c'') = ''c'' \<and>
   strip_protocol (strip_protocol ''a://b://c'') \<noteq> strip_protocol ''a://b://c''"
  by (simp add: strip_protocol_def)

subsection \<open>The entry translator\<close>

text \<open>
  C5. The entry translator gives the type \<^verbatim>\<open>directory\<close> for the tag Directory,
  \<^verbatim>\<open>file\<close> for File and \<^verbatim>\<open>other\<close> for every tag other than these and NotFound,
  with the record's path, size and modification time; for NotFound it raises a
  \<^verbatim>\<open>FileNotFoundError\<close> with the code ENOENT and returns no entry.
\<close>

theorem make_entry_kinds:
  "(fi_type i = Directory \<longrightarrow>
      make_entry i = Inr \<lparr>e_name = fi_path i, e_size = fi_size i,
                          e_type = ''directory'', e_mtime = fi_mtime i\<rparr>) \<and>
   (fi_type i = File \<longrightarrow>
      make_entry i = Inr \<lparr>e_name = fi_path i, e_size = fi_size i,
                          e_type = ''file'', e_mtime = fi_mtime i\<rparr>) \<and>
   (fi_type i \<noteq> Directory \<and> fi_type i \<noteq> File \<and> fi_type i \<noteq> NotFound \<longrightarrow>
      make_entry i = Inr \<lparr>e_name = fi_path i, e_size = fi_size i,
                          e_type = ''other'', e_mtime = fi_mtime i\<rparr>) \<and>
   (fi_type i = NotFound \<longrightarrow>
      (\<exists>x. make_entry i = Inl x \<and> is_FileNotFoundError x \<and>
           exn_args x = [PInt ENOENT, PStr strerror_ENOENT]) \<and>
      (\<forall>e. make_entry i \<noteq> Inr e))"
  by (simp add: make_entry_def is_FileNotFoundError_def)

theorem make_entry_kinds_witness:
  "make_entry \<lparr>fi_path = ''/d/sub'', fi_type = Directory, fi_size = None, fi_mtime = Some 7\<rparr>
     = Inr \<lparr>e_name = ''/d/sub'', e_size = None, e_type = ''directory'', e_mtime = Some 7\<rparr> \<and>
   make_entry (stat [''/d/f'' \<mapsto> ''abc''] ''/d/f'')
     = Inr \<lparr>e_name = ''/d/f'', e_size = Some 3, e_type = ''file'', e_mtime = None\<rparr> \<and>
   make_entry \<lparr>fi_path = ''/d/l'', fi_type = Unknown, fi_size = None, fi_mtime = None\<rparr>
     = Inr \<lparr>e_name = ''/d/l'', e_size = None, e_type = ''other'', e_mtime = None\<rparr> \<and>
   (\<exists>x. make_entry (stat Map.empty ''/gone'') = Inl x \<and> is_FileNotFoundError x \<and>
        exn_args x = [PInt 2, PStr ''No such file or directory''])"
  using
    make_entry_kinds [of "\<lparr>fi_path = ''/d/sub'', fi_type = Directory, fi_size = None, fi_mtime = Some 7\<rparr>"]
    make_entry_kinds [of "stat [''/d/f'' \<mapsto> ''abc''] ''/d/f''"]
    make_entry_kinds [of "\<lparr>fi_path = ''/d/l'', fi_type = Unknown, fi_size = None, fi_mtime = None\<rparr>"]
    make_entry_kinds [of "stat Map.empty ''/gone''"]
  by (simp add: stat_def ENOENT_def strerror_ENOENT_def)

subsection \<open>The exception normaliser\<close>

text \<open>
  C6. When the wrapped call raises an error of the \<^verbatim>\<open>OSError\<close> family, the
  wrapper raises it unchanged if it carries no arguments; raises a
  \<^verbatim>\<open>FileNotFoundError\<close> with the code ENOENT and the message if the message (the
  first argument, a string) contains \<^verbatim>\<open>does not exist\<close>; and raises it unchanged
  in every other case. An error outside the family passes through unchanged.
\<close>

theorem wrap_exceptions_cases:
  "func s = (Inl e, s') \<Longrightarrow>
     (is_OSError e \<and> exn_args e = [] \<longrightarrow> wrap_exceptions func s = (Inl e, s')) \<and>
     (\<forall>m rest. is_OSError e \<and> exn_args e = PStr m # rest \<and> str_contains ''does not exist'' m \<longrightarrow>
        wrap_exceptions func s = (Inl (Exn FileNotFoundError [PInt ENOENT, PStr m] None), s')) \<and>
     (is_OSError e \<and> \<not> (\<exists>m rest. exn_args e = PStr m # rest \<and> str_contains ''does not exist'' m) \<longrightarrow>
        wrap_exceptions func s = (Inl e, s')) \<and>
     (\<not> is_OSError e \<longrightarrow> wrap_exceptions func s = (Inl e, s'))"
  by (auto simp: wrap_exceptions_def reraise_def split: list.splits pyval.splits)

theorem wrap_exceptions_cases_witness:
  "wrap_exceptions (\<lambda>s. (Inl (Exn OSError [] None) :: exn + unit, s)) (0::nat)
     = (Inl (Exn OSError [] None), 0) \<and>
   wrap_exceptions (\<lambda>s. (Inl (Exn OSError [PStr ''Path /x does not exist''] None) :: exn + unit, s)) (0::nat)
     = (Inl (Exn FileNotFoundError [PInt 2, PStr ''Path /x does not exist''] None), 0) \<and>
   wrap_exceptions (\<lambda>s. (Inl (Exn OSError [PStr ''Permission denied''] None) :: exn + unit, s)) (0::nat)
     = (Inl (Exn OSError [PStr ''Permission denied''] None), 0) \<and>
   wrap_exceptions (\<lambda>s. (Inl (Exn ValueError [PStr ''Path /x does not exist''] None) :: exn + unit, s)) (0::nat)
     = (Inl (Exn ValueError [PStr ''Path /x does not exist''] None), 0)"
proof -
  let ?f = "\<lambda>e. (\<lambda>s::nat. (Inl e :: exn + unit, s))"
  have a: "?f e 0 = (Inl e, 0)" for e by simp
  note t = wrap_exceptions_cases [of "?f e" 0 e 0 for e, OF a]
  show ?thesis
    using t [of "Exn OSError [] None"]
      t [of "Exn OSError [PStr ''Path /x does not exist''] None"]
      t [of "Exn OSError [PStr ''Permission denied''] None"]
      t [of "Exn ValueError [PStr ''Path /x does not exist''] None"]
    by (simp add: ENOENT_def)
qed

text \<open>
  C10. The wrapper looks for the message in the first argument only: an error of the
  \<^verbatim>\<open>OSError\<close> family whose first argument is not a string (an error code, with
  the message in the second place) is raised unchanged, whatever its other arguments
  say.
\<close>

theorem wrap_exceptions_first_argument:
  "func s = (Inl e, s') \<Longrightarrow> is_OSError e \<Longrightarrow> exn_args e = a # rest \<Longrightarrow>
     (\<forall>m. a \<noteq> PStr m) \<Longrightarrow> wrap_exceptions func s = (Inl e, s')"
  by (auto simp: wrap_exceptions_def reraise_def split: list.splits pyval.splits)

theorem wrap_exceptions_first_argument_witness:
  "is_OSError (Exn OSError [PInt 2, PStr ''Path /x does not exist''] None) \<and>
   str_contains ''does not exist'' ''Path /x does not exist'' \<and>
   wrap_exceptions (\<lambda>s. (Inl (Exn OSError [PInt 2, PStr ''Path /x does not exist''] None) :: exn + unit, s)) (0::nat)
     = (Inl (Exn OSError [PInt 2, PStr ''Path /x does not exist''] None), 0)"
proof -
  let ?e = "Exn OSError [PInt 2, PStr ''Path /x does not exist''] None"
  let ?f = "\<lambda>s::nat. (Inl ?e :: exn + unit, s)"
  have a: "?f 0 = (Inl ?e, 0)" by simp
  have b: "is_OSError ?e" by simp
  have c: "exn_args ?e = PInt 2 # [PStr ''Path /x does not exist'']" by simp
  have d: "\<forall>m. PInt 2 \<noteq> PStr m" by simp
  have k: "str_contains ''does not exist'' ''Path /x does not exist''" by simp
  show ?thesis
    using wrap_exceptions_first_argument
            [of ?f 0 ?e 0 "PInt 2" "[PStr ''Path /x does not exist'']", OF a b c d] b k
    by simp
qed

subsection \<open>\<^verbatim>\<open>exists\<close>\<close>

text \<open>
  C3. \<^verbatim>\<open>exists(p)\<close> strips the protocol and calls \<^verbatim>\<open>info\<close> on the result:
  it returns false when that call raises \<^verbatim>\<open>FileNotFoundError\<close>, true when it
  returns, and raises what it raises otherwise. That call is \<^verbatim>\<open>info(p)\<close> whenever
  the stripped path holds no further marker \<^verbatim>\<open>://\<close>.
\<close>

theorem exists_by_info:
  "(\<forall>e s'. info P (strip_protocol p) s = (Inl e, s') \<and> is_FileNotFoundError e \<longrightarrow>
       exists P p s = (Inr False, s')) \<and>
   (\<forall>v s'. info P (strip_protocol p) s = (Inr v, s') \<longrightarrow> exists P p s = (Inr True, s')) \<and>
   (\<forall>e s'. info P (strip_protocol p) s = (Inl e, s') \<and> \<not> is_FileNotFoundError e \<longrightarrow>
       exists P p s = (Inl e, s')) \<and>
   (\<not> str_contains ''://'' (strip_protocol p) \<longrightarrow> info P (strip_protocol p) = info P p)"
  by (auto simp: exists_def info_def strip_protocol_def Let_def)

theorem exists_by_info_witness:
  "exists (memory_fs Map.empty) ''hdfs://real/dir'' [''real/dir'' \<mapsto> ''abc'']
     = (Inr True, [''real/dir'' \<mapsto> ''abc'']) \<and>
   exists (memory_fs Map.empty) ''/missing'' Map.empty = (Inr False, Map.empty) \<and>
   exists (memory_fs (map_of [(GetFileInfo [''/x''], Exn OSError [PStr ''Connection refused''] None)]))
       ''/x'' Map.empty
     = (Inl (Exn OSError [PStr ''Connection refused''] None), Map.empty) \<and>
   info (memory_fs Map.empty) (strip_protocol ''hdfs://real/dir'')
     = info (memory_fs Map.empty) ''hdfs://real/dir''"
proof -
  let ?P = "memory_fs Map.empty"
  let ?E = "Exn OSError [PStr ''Connection refused''] None"
  let ?Q = "memory_fs (map_of [(GetFileInfo [''/x''], ?E)])"
  let ?s = "[''real/dir'' \<mapsto> ''abc'']"
  have i1: "info ?P (strip_protocol ''hdfs://real/dir'') ?s
      = (Inr \<lparr>e_name = ''real/dir'', e_size = Some 3, e_type = ''file'', e_mtime = None\<rparr>, ?s)"
    by (simp add: info_def strip_protocol_def io_defs double_defs stat_def unpack_one_def
          make_entry_def Let_def)
  have i2: "info ?P (strip_protocol ''/missing'') Map.empty
      = (Inl (no_such_file ''/missing''), Map.empty)"
    by (simp add: info_def strip_protocol_def io_defs double_defs stat_def unpack_one_def
          make_entry_def Let_def no_such_file_def)
  have n2: "is_FileNotFoundError (no_such_file ''/missing'')"
    by (simp add: no_such_file_def is_FileNotFoundError_def)
  have i3: "info ?Q (strip_protocol ''/x'') Map.empty = (Inl ?E, Map.empty)"
    by (simp add: info_def strip_protocol_def io_defs double_defs Let_def)
  have n3: "\<not> is_FileNotFoundError ?E"
    by (simp add: is_FileNotFoundError_def)
  have n4: "\<not> str_contains ''://'' (strip_protocol ''hdfs://real/dir'')"
    by (simp add: strip_protocol_def)
  from exists_by_info [of ?P "''hdfs://real/dir''" ?s] i1
  have a: "exists ?P ''hdfs://real/dir'' ?s = (Inr True, ?s)" by blast
  from exists_by_info [of ?P "''/missing''" Map.empty] i2 n2
  have b: "exists ?P ''/missing'' Map.empty = (Inr False, Map.empty)" by blast
  from exists_by_info [of ?Q "''/x''" Map.empty] i3 n3
  have c: "exists ?Q ''/x'' Map.empty = (Inl ?E, Map.empty)" by blast
  from exists_by_info [of ?P "''hdfs://real/dir''" ?s] n4
  have d: "info ?P (strip_protocol ''hdfs://real/dir'') = info ?P ''hdfs://real/dir''" by blast
  show ?thesis using a b c d by blast
qed

text \<open>
  On \<^verbatim>\<open>a://b://c\<close>, \<^verbatim>\<open>info\<close> looks \<^verbatim>\<open>b://c\<close> up and \<^verbatim>\<open>exists\<close>
  looks \<^verbatim>\<open>c\<close> up: with a file at the first and nothing at the second,
  \<^verbatim>\<open>info(p)\<close> returns and \<^verbatim>\<open>exists(p)\<close> is false.
\<close>

theorem exists_info_counterexample:
  "info (memory_fs Map.empty) ''a://b://c'' [''b://c'' \<mapsto> ''abc'']
     = (Inr \<lparr>e_name = ''b://c'', e_size = Some 3, e_type = ''file'', e_mtime = None\<rparr>,
        [''b://c'' \<mapsto> ''abc'']) \<and>
   exists (memory_fs Map.empty) ''a://b://c'' [''b://c'' \<mapsto> ''abc'']
     = (Inr False, [''b://c'' \<mapsto> ''abc''])"
  by (simp add: exists_def info_def strip_protocol_def io_defs double_defs
        stat_def unpack_one_def make_entry_def Let_def
        is_FileNotFoundError_def)

subsection \<open>\<^verbatim>\<open>rm\<close>\<close>

text \<open>\<^verbatim>\<open>rstrip("/")\<close> leaves a path that does not end in a slash as it is.\<close>

lemma rstrip_slash_id: "path = [] \<or> last path \<noteq> CHR ''/'' \<Longrightarrow> rstrip_slash path = path"
  by (cases path rule: rev_cases) (auto simp: rstrip_slash_def)

text \<open>
  C7. \<^verbatim>\<open>rm\<close> decides on the normalised path: the path without its protocol and
  without its trailing slashes, which is the path itself when it has neither. When
  \<^verbatim>\<open>isdir\<close> answers that the normalised path is a directory, \<^verbatim>\<open>rm\<close>
  without \<^verbatim>\<open>recursive\<close> raises \<^verbatim>\<open>ValueError\<close> and leaves the provider in
  the state in which \<^verbatim>\<open>isdir\<close> answered (it makes no further call), and with
  \<^verbatim>\<open>recursive\<close> it is the provider's \<^verbatim>\<open>delete_dir\<close> on the normalised
  path; when \<^verbatim>\<open>isdir\<close> answers that it is none, \<^verbatim>\<open>rm\<close> is the provider's
  \<^verbatim>\<open>delete_file\<close> on it, whatever \<^verbatim>\<open>recursive\<close> is; and
  \<^verbatim>\<open>maxdepth\<close> changes nothing.
\<close>

theorem rm_cases:
  "(isdir (rstrip_slash (strip_protocol path)) s = (Inr True, s1) \<longrightarrow>
      (\<exists>e. rm P isdir path False maxdepth s = (Inl e, s1) \<and> exn_cls e = ValueError) \<and>
      rm P isdir path True maxdepth s
        = wrap_exceptions (delete_dir P (rstrip_slash (strip_protocol path))) s1) \<and>
   (isdir (rstrip_slash (strip_protocol path)) s = (Inr False, s1) \<longrightarrow>
      rm P isdir path recursive maxdepth s
        = wrap_exceptions (delete_file P (rstrip_slash (strip_protocol path))) s1) \<and>
   rm P isdir path recursive maxdepth = rm P isdir path recursive maxdepth' \<and>
   (\<not> str_contains ''://'' path \<and> (path = [] \<or> last path \<noteq> CHR ''/'') \<longrightarrow>
      rstrip_slash (strip_protocol path) = path)"
  by (auto simp: rm_def rm_body_def io_defs reraise_def Let_def rstrip_slash_id strip_protocol_def
        split: prod.splits sum.splits)


theorem rm_cases_witness:
  "(\<exists>e. rm (recording (memory_fs Map.empty)) (isdir_only ''/somedir'') ''hdfs:///somedir/''
           False None (Map.empty, [])
         = (Inl e, (Map.empty, [])) \<and> exn_cls e = ValueError) \<and>
   snd (snd (rm (recording (memory_fs Map.empty)) (isdir_only ''/somedir'') ''hdfs:///somedir/''
           True None (Map.empty, [])))
     = [DeleteDir ''/somedir''] \<and>
   snd (snd (rm (recording (memory_fs Map.empty)) (isdir_only ''/somedir'') ''/d/f''
           False (Some 1) ([''/d/f'' \<mapsto> ''abc''], [])))
     = [DeleteFile ''/d/f''] \<and>
   (\<exists>e. rm (recording (with_dirs [''/somedir''] (memory_fs Map.empty)))
           (inherited_isdir (recording (with_dirs [''/somedir''] (memory_fs Map.empty))))
           ''/somedir'' False None (Map.empty, [])
         = (Inl e, (Map.empty, [GetFileInfo [''/somedir'']])) \<and> exn_cls e = ValueError) \<and>
   rstrip_slash (strip_protocol ''/somedir'') = ''/somedir''"
proof -
  let ?P = "recording (memory_fs Map.empty)"
  let ?D = "recording (with_dirs [''/somedir''] (memory_fs Map.empty))"
  have n1: "rstrip_slash (strip_protocol ''hdfs:///somedir/'') = ''/somedir''"
    by (simp add: strip_protocol_def rstrip_slash_def)
  have n2: "rstrip_slash (strip_protocol ''/d/f'') = ''/d/f''"
    by (simp add: strip_protocol_def rstrip_slash_def)
  have d: "isdir_only ''/somedir'' (rstrip_slash (strip_protocol ''hdfs:///somedir/''))
             (Map.empty, []) = (Inr True, (Map.empty, []))"
    by (simp add: n1 isdir_only_def)
  have f: "isdir_only ''/somedir'' (rstrip_slash (strip_protocol ''/d/f''))
             ([''/d/f'' \<mapsto> ''abc''], []) = (Inr False, ([''/d/f'' \<mapsto> ''abc''], []))"
    by (simp add: n2 isdir_only_def)
  have h: "\<not> str_contains ''://'' ''/somedir'' \<and> (''/somedir'' = [] \<or> last ''/somedir'' \<noteq> CHR ''/'')"
    by simp
  note t1 = rm_cases [where P = ?P and isdir = "isdir_only ''/somedir''"
            and path = "''hdfs:///somedir/''" and s = "(Map.empty, [])"
            and ?s1.0 = "(Map.empty, [])" and maxdepth = None]
  note t2 = rm_cases [where P = ?P and isdir = "isdir_only ''/somedir''"
            and path = "''/d/f''" and s = "([''/d/f'' \<mapsto> ''abc''], [])"
            and ?s1.0 = "([''/d/f'' \<mapsto> ''abc''], [])" and maxdepth = "Some 1"
            and recursive = False]
  note t3 = rm_cases [where P = ?D and isdir = "inherited_isdir ?D"
            and path = "''/somedir''" and s = "(Map.empty, [])"
            and ?s1.0 = "(Map.empty, [GetFileInfo [''/somedir'']])" and maxdepth = None]
  from t3 h have n3: "rstrip_slash (strip_protocol ''/somedir'') = ''/somedir''" by blast
  have i: "inherited_isdir ?D (rstrip_slash (strip_protocol ''/somedir'')) (Map.empty, [])
             = (Inr True, (Map.empty, [GetFileInfo [''/somedir'']]))"
    unfolding n3
    by (simp add: inherited_isdir_def info_def io_defs double_defs with_dirs_def
          as_directory_def stat_def unpack_one_def make_entry_def strip_protocol_def Let_def)
  from t1 d have a: "\<exists>e. rm ?P (isdir_only ''/somedir'') ''hdfs:///somedir/''
           False None (Map.empty, []) = (Inl e, (Map.empty, [])) \<and> exn_cls e = ValueError"
    by blast
  from t1 d have b: "rm ?P (isdir_only ''/somedir'') ''hdfs:///somedir/'' True None (Map.empty, [])
      = wrap_exceptions (delete_dir ?P (rstrip_slash (strip_protocol ''hdfs:///somedir/'')))
          (Map.empty, [])"
    by blast
  from t2 f have c: "rm ?P (isdir_only ''/somedir'') ''/d/f'' False (Some 1)
        ([''/d/f'' \<mapsto> ''abc''], [])
      = wrap_exceptions (delete_file ?P (rstrip_slash (strip_protocol ''/d/f'')))
          ([''/d/f'' \<mapsto> ''abc''], [])"
    by blast
  from t3 i have g: "\<exists>e. rm ?D (inherited_isdir ?D) ''/somedir'' False None (Map.empty, [])
         = (Inl e, (Map.empty, [GetFileInfo [''/somedir'']])) \<and> exn_cls e = ValueError"
    by blast
  have b': "snd (snd (rm ?P (isdir_only ''/somedir'') ''hdfs:///somedir/'' True None
           (Map.empty, []))) = [DeleteDir ''/somedir'']"
    unfolding b n1 by (simp add: double_defs wrap_exceptions_def)
  have c': "snd (snd (rm ?P (isdir_only ''/somedir'') ''/d/f'' False (Some 1)
           ([''/d/f'' \<mapsto> ''abc''], []))) = [DeleteFile ''/d/f'']"
    unfolding c n2 by (simp add: double_defs wrap_exceptions_def)
  show ?thesis
    using a b' c' g n3 by blast
qed


text \<open>
  The root \<^verbatim>\<open>/\<close> is a directory of the provider, and its normalised path is the
  empty path, where the provider has nothing: \<^verbatim>\<open>rm\<close> of the root, with the
  inherited \<^verbatim>\<open>isdir\<close>, looks the empty path up and calls \<^verbatim>\<open>delete_file\<close> on
  it, without \<^verbatim>\<open>recursive\<close> and with it. It raises what that delete raises, not
  \<^verbatim>\<open>ValueError\<close>, and never calls \<^verbatim>\<open>delete_dir\<close>.
\<close>

theorem rm_root_counterexample:
  "info (with_dirs [''/''] (memory_fs Map.empty)) ''/'' Map.empty
     = (Inr \<lparr>e_name = ''/'', e_size = None, e_type = ''directory'', e_mtime = None\<rparr>, Map.empty) \<and>
   inherited_isdir (with_dirs [''/''] (memory_fs Map.empty)) ''/'' Map.empty = (Inr True, Map.empty) \<and>
   rm (recording (with_dirs [''/''] (memory_fs Map.empty)))
      (inherited_isdir (recording (with_dirs [''/''] (memory_fs Map.empty))))
      ''/'' False None (Map.empty, [])
     = (Inl (Exn FileNotFoundError [PInt 2, PStr ''No such file or directory''] (Some [])),
        (Map.empty, [GetFileInfo [[]], DeleteFile []])) \<and>
   rm (recording (with_dirs [''/''] (memory_fs Map.empty)))
      (inherited_isdir (recording (with_dirs [''/''] (memory_fs Map.empty))))
      ''/'' True None (Map.empty, [])
     = (Inl (Exn FileNotFoundError [PInt 2, PStr ''No such file or directory''] (Some [])),
        (Map.empty, [GetFileInfo [[]], DeleteFile []]))"
  by (simp add: rm_def rm_body_def inherited_isdir_def info_def io_defs double_defs with_dirs_def
        as_directory_def stat_def unpack_one_def make_entry_def no_such_file_def
        strip_protocol_def rstrip_slash_def reraise_def ENOENT_def strerror_ENOENT_def Let_def)


subsection \<open>\<^verbatim>\<open>_open\<close>\<close>

text \<open>
  C8. For a mode other than \<^verbatim>\<open>rb\<close> and \<^verbatim>\<open>wb\<close>, \<^verbatim>\<open>_open\<close> raises
  \<^verbatim>\<open>ValueError\<close> and leaves the state of every provider as it was: a provider
  that records its calls has recorded none. For \<^verbatim>\<open>rb\<close> it is the provider's
  \<^verbatim>\<open>open_input_stream\<close> and for \<^verbatim>\<open>wb\<close> its \<^verbatim>\<open>open_output_stream\<close>,
  with the stream wrapped in a handle that keeps the path, the mode and the block size.
\<close>

theorem arrow_open_modes:
  "(mode \<noteq> ''rb'' \<and> mode \<noteq> ''wb'' \<longrightarrow>
      (\<exists>e. arrow_open P path mode block_size s = (Inl e, s) \<and> exn_cls e = ValueError) \<and>
      snd (arrow_open (recording P) path mode block_size (s, calls)) = (s, calls)) \<and>
   arrow_open P path ''rb'' block_size s =
     (case open_input_stream P path s of
        (Inl e, s') \<Rightarrow> (Inl (reraise e), s')
      | (Inr stream, s') \<Rightarrow>
          (Inr \<lparr>af_path = path, af_mode = ''rb'', af_stream = stream,
                 af_block_size = block_size\<rparr>, s')) \<and>
   arrow_open P path ''wb'' block_size s =
     (case open_output_stream P path s of
        (Inl e, s') \<Rightarrow> (Inl (reraise e), s')
      | (Inr stream, s') \<Rightarrow>
          (Inr \<lparr>af_path = path, af_mode = ''wb'', af_stream = stream,
                 af_block_size = block_size\<rparr>, s'))"
  by (auto simp: arrow_open_def arrow_open_body_def io_defs reraise_def
           split: prod.splits sum.splits)

theorem arrow_open_modes_witness:
  "(\<exists>e. arrow_open (recording (memory_fs Map.empty)) ''/d/f'' ''rb+'' None (Map.empty, [])
          = (Inl e, (Map.empty, [])) \<and> exn_cls e = ValueError) \<and>
   arrow_open (recording (memory_fs Map.empty)) ''/d/f'' ''rb'' (Some 4096) (Map.empty, [])
     = (Inr \<lparr>af_path = ''/d/f'', af_mode = ''rb'', af_stream = ''/d/f'',
              af_block_size = Some 4096\<rparr>,
        (Map.empty, [OpenInputStream ''/d/f''])) \<and>
   snd (snd (arrow_open (recording (memory_fs Map.empty)) ''/d/f'' ''wb'' None (Map.empty, [])))
     = [OpenOutputStream ''/d/f'']"
  using arrow_open_modes [of "''rb+''" "recording (memory_fs Map.empty)" "''/d/f''" None
          "(Map.empty, [])"]
        arrow_open_modes [of "''rb+''" "recording (memory_fs Map.empty)" "''/d/f''" "Some 4096"
          "(Map.empty, [])"]
  by (simp add: double_defs)

subsection \<open>Which operations pass through the normaliser\<close>

text \<open>What leaves the wrapper is never an error it reclassifies.\<close>

lemma reraise_not_reclassifiable: "\<not> reclassifiable (reraise e)"
  by (auto simp: reclassifiable_def reraise_def split: list.splits pyval.splits)

lemma reraise_reclassifiable:
  "reclassifiable e \<Longrightarrow> reraise e = Exn FileNotFoundError [PInt ENOENT, hd (exn_args e)] None"
  by (auto simp: reclassifiable_def reraise_def split: list.splits pyval.splits)

lemma wrap_exceptions_not_reclassifiable:
  "fst (wrap_exceptions f s) = Inl e \<Longrightarrow> \<not> reclassifiable e"
  using reraise_not_reclassifiable
  by (auto simp: wrap_exceptions_def split: prod.splits sum.splits)

lemma wrap_exceptions_reclassifies:
  "f s = (Inl e, s') \<Longrightarrow> reclassifiable e \<Longrightarrow>
     wrap_exceptions f s = (Inl (Exn FileNotFoundError [PInt ENOENT, hd (exn_args e)] None), s')"
  by (simp add: wrap_exceptions_def reraise_reclassifiable)

lemma wrap_exceptions_not_found:
  "f s = (Inl e, s') \<Longrightarrow> reclassifiable e \<Longrightarrow>
     wrap_exceptions f s = (Inl (not_found_of e), s')"
  by (simp add: wrap_exceptions_reclassifies not_found_of_def)

lemma reraise_not_found: "reclassifiable e \<Longrightarrow> reraise e = not_found_of e"
  by (simp add: reraise_reclassifiable not_found_of_def)

lemma reraise_idem: "reraise (reraise e) = reraise e"
  by (auto simp: reraise_def ENOENT_def split: list.splits pyval.splits)


text \<open>
  C2. The decorated methods are \<^verbatim>\<open>cp_file\<close>, \<^verbatim>\<open>mv\<close>, \<^verbatim>\<open>rm_file\<close>,
  \<^verbatim>\<open>rm\<close>, \<^verbatim>\<open>_open\<close> (and with it \<^verbatim>\<open>open\<close>), \<^verbatim>\<open>mkdir\<close>,
  \<^verbatim>\<open>makedirs\<close> and \<^verbatim>\<open>rmdir\<close>. No error the normaliser reclassifies
  leaves any of them. Let \<open>e\<close> be such an error: when the provider call of
  \<^verbatim>\<open>mv\<close>, \<^verbatim>\<open>rm_file\<close>, \<^verbatim>\<open>rmdir\<close>, \<^verbatim>\<open>makedirs\<close>,
  \<^verbatim>\<open>mkdir\<close> (with parents or without), \<^verbatim>\<open>_open\<close> or \<^verbatim>\<open>open\<close>
  raises \<open>e\<close>, when \<^verbatim>\<open>isdir\<close> or the delete of \<^verbatim>\<open>rm\<close> raises it,
  or when the opening of the source of \<^verbatim>\<open>cp_file\<close> raises it, the operation
  raises \<^verbatim>\<open>FileNotFoundError\<close> with the code ENOENT and the message of \<open>e\<close>.
  So does \<^verbatim>\<open>cp_file\<close> whenever \<open>e\<close> is what its body raises: when the move
  raises \<open>e\<close> and the delete of the temporary file succeeds or is suppressed, and
  when that delete raises \<open>e\<close> (not a \<^verbatim>\<open>FileNotFoundError\<close>) in place of what
  the \<^verbatim>\<open>try\<close> block raised, the source being closed without failure.
  \<^verbatim>\<open>ls\<close>, \<^verbatim>\<open>info\<close> and \<^verbatim>\<open>exists\<close> are not decorated: whatever the
  provider's lookup raises leaves \<^verbatim>\<open>ls\<close> and \<^verbatim>\<open>info\<close> unchanged, and
  leaves \<^verbatim>\<open>exists\<close> unchanged unless it is a \<^verbatim>\<open>FileNotFoundError\<close>, which
  \<^verbatim>\<open>exists\<close> answers with false.
\<close>

theorem wrapped_operations_reclassify:
  assumes p1: "p1 = rstrip_slash (strip_protocol path1)"
      and p2: "p2 = rstrip_slash (strip_protocol path2)"
      and tmp: "tmp = tmp_name parent token p2"
      and p: "p = rstrip_slash (strip_protocol path)"
      and r: "reclassifiable e"
  shows
  "(\<forall>x. fst (cp_file P parent token path1 path2 s) = Inl x \<longrightarrow> \<not> reclassifiable x) \<and>
   (\<forall>x. fst (mv P path1 path2 s) = Inl x \<longrightarrow> \<not> reclassifiable x) \<and>
   (\<forall>x. fst (rm_file P path s) = Inl x \<longrightarrow> \<not> reclassifiable x) \<and>
   (\<forall>x. fst (rm P isdir path recursive maxdepth s) = Inl x \<longrightarrow> \<not> reclassifiable x) \<and>
   (\<forall>x. fst (arrow_open P path mode block_size s) = Inl x \<longrightarrow> \<not> reclassifiable x) \<and>
   (\<forall>x. fst (fs_open P path mode block_size s) = Inl x \<longrightarrow> \<not> reclassifiable x) \<and>
   (\<forall>x. fst (mkdir P path create_parents s) = Inl x \<longrightarrow> \<not> reclassifiable x) \<and>
   (\<forall>x. fst (makedirs P path exist_ok s) = Inl x \<longrightarrow> \<not> reclassifiable x) \<and>
   (\<forall>x. fst (rmdir P path s) = Inl x \<longrightarrow> \<not> reclassifiable x) \<and>
   (move P p1 p2 s = (Inl e, s') \<longrightarrow> mv P path1 path2 s = (Inl (not_found_of e), s')) \<and>
   (delete_file P (strip_protocol path) s = (Inl e, s') \<longrightarrow>
      rm_file P path s = (Inl (not_found_of e), s')) \<and>
   (delete_dir P (strip_protocol path) s = (Inl e, s') \<longrightarrow>
      rmdir P path s = (Inl (not_found_of e), s')) \<and>
   (create_dir P (strip_protocol path) True s = (Inl e, s') \<longrightarrow>
      makedirs P path exist_ok s = (Inl (not_found_of e), s')) \<and>
   (create_dir P (strip_protocol path) False s = (Inl e, s') \<longrightarrow>
      mkdir P path False s = (Inl (not_found_of e), s')) \<and>
   (create_dir P (strip_protocol (strip_protocol path)) True s = (Inl e, s') \<longrightarrow>
      mkdir P path True s = (Inl (not_found_of e), s')) \<and>
   (open_input_stream P path s = (Inl e, s') \<longrightarrow>
      arrow_open P path ''rb'' block_size s = (Inl (not_found_of e), s')) \<and>
   (open_output_stream P path s = (Inl e, s') \<longrightarrow>
      arrow_open P path ''wb'' block_size s = (Inl (not_found_of e), s')) \<and>
   (open_input_stream P (strip_protocol path) s = (Inl e, s') \<longrightarrow>
      fs_open P path ''rb'' block_size s = (Inl (not_found_of e), s')) \<and>
   (open_output_stream P (strip_protocol path) s = (Inl e, s') \<longrightarrow>
      fs_open P path ''wb'' block_size s = (Inl (not_found_of e), s')) \<and>
   (isdir p s = (Inl e, s') \<longrightarrow>
      rm P isdir path recursive maxdepth s = (Inl (not_found_of e), s')) \<and>
   (isdir p s = (Inr True, s1) \<and> delete_dir P p s1 = (Inl e, s') \<longrightarrow>
      rm P isdir path True maxdepth s = (Inl (not_found_of e), s')) \<and>
   (isdir p s = (Inr False, s1) \<and> delete_file P p s1 = (Inl e, s') \<longrightarrow>
      rm P isdir path recursive maxdepth s = (Inl (not_found_of e), s')) \<and>
   (open_input_stream P p1 s = (Inl e, s') \<longrightarrow>
      cp_file P parent token path1 path2 s = (Inl (not_found_of e), s')) \<and>
   (cp_file_body P parent token path1 path2 s = (Inl e, s') \<longrightarrow>
      cp_file P parent token path1 path2 s = (Inl (not_found_of e), s')) \<and>
   (arrow_open P p1 ''rb'' None s = (Inr lstream, s1) \<and>
    copy_to_temp P lstream tmp s1 = (Inr (), t) \<and>
    move P tmp p2 t = (Inl e, s2) \<and>
    delete_file P tmp s2 = (d, s3) \<and>
    (d = Inr () \<or> (\<exists>x. d = Inl x \<and> is_FileNotFoundError x)) \<and>
    stream_close P (af_stream lstream) s3 = (Inr (), s4) \<longrightarrow>
      cp_file P parent token path1 path2 s = (Inl (not_found_of e), s4)) \<and>
   (arrow_open P p1 ''rb'' None s = (Inr lstream, s1) \<and>
    try_block P lstream tmp p2 s1 = (Inl e0, s2) \<and>
    delete_file P tmp s2 = (Inl e, s3) \<and> \<not> is_FileNotFoundError e \<and>
    stream_close P (af_stream lstream) s3 = (Inr (), s4) \<longrightarrow>
      cp_file P parent token path1 path2 s = (Inl (not_found_of e), s4)) \<and>
   (\<forall>x. get_file_info_selector P path s = (Inl x, s') \<longrightarrow>
      ls P path detail s = (Inl x, s')) \<and>
   (\<forall>x. get_file_info P [strip_protocol path] s = (Inl x, s') \<longrightarrow>
      info P path s = (Inl x, s')) \<and>
   (\<forall>x. get_file_info P [strip_protocol (strip_protocol path)] s = (Inl x, s') \<longrightarrow>
      exists P path s = (if is_FileNotFoundError x then (Inr False, s') else (Inl x, s')))"
proof -
  have n: "\<And>f x. fst (wrap_exceptions f s) = Inl x \<Longrightarrow> \<not> reclassifiable x"
    by (rule wrap_exceptions_not_reclassifiable)
  have a1: "\<forall>x. fst (cp_file P parent token path1 path2 s) = Inl x \<longrightarrow> \<not> reclassifiable x"
    unfolding cp_file_def using n by blast
  have a2: "\<forall>x. fst (mv P path1 path2 s) = Inl x \<longrightarrow> \<not> reclassifiable x"
    unfolding mv_def using n by blast
  have a3: "\<forall>x. fst (rm_file P path s) = Inl x \<longrightarrow> \<not> reclassifiable x"
    unfolding rm_file_def using n by blast
  have a4: "\<forall>x. fst (rm P isdir path recursive maxdepth s) = Inl x \<longrightarrow> \<not> reclassifiable x"
    unfolding rm_def using n by blast
  have a5: "\<forall>x. fst (arrow_open P path mode block_size s) = Inl x \<longrightarrow> \<not> reclassifiable x"
    unfolding arrow_open_def using n by blast
  have a6: "\<forall>x. fst (fs_open P path mode block_size s) = Inl x \<longrightarrow> \<not> reclassifiable x"
    unfolding fs_open_def arrow_open_def using n by blast
  have a7: "\<forall>x. fst (mkdir P path create_parents s) = Inl x \<longrightarrow> \<not> reclassifiable x"
    unfolding mkdir_def using n by blast
  have a8: "\<forall>x. fst (makedirs P path exist_ok s) = Inl x \<longrightarrow> \<not> reclassifiable x"
    unfolding makedirs_def using n by blast
  have a9: "\<forall>x. fst (rmdir P path s) = Inl x \<longrightarrow> \<not> reclassifiable x"
    unfolding rmdir_def using n by blast
  note w = wrap_exceptions_not_found [OF _ r]
  have b1: "move P p1 p2 s = (Inl e, s') \<longrightarrow> mv P path1 path2 s = (Inl (not_found_of e), s')"
    using r by (simp add: mv_def Let_def p1 p2 wrap_exceptions_not_found)
  have b2: "delete_file P (strip_protocol path) s = (Inl e, s') \<longrightarrow>
      rm_file P path s = (Inl (not_found_of e), s')"
    using r by (simp add: rm_file_def Let_def wrap_exceptions_not_found)
  have b3: "delete_dir P (strip_protocol path) s = (Inl e, s') \<longrightarrow>
      rmdir P path s = (Inl (not_found_of e), s')"
    using r by (simp add: rmdir_def Let_def wrap_exceptions_not_found)
  have b4: "create_dir P (strip_protocol path) True s = (Inl e, s') \<longrightarrow>
      makedirs P path exist_ok s = (Inl (not_found_of e), s')"
    using r by (simp add: makedirs_def Let_def wrap_exceptions_not_found)
  have b5: "create_dir P (strip_protocol path) False s = (Inl e, s') \<longrightarrow>
      mkdir P path False s = (Inl (not_found_of e), s')"
    using r by (simp add: mkdir_def Let_def wrap_exceptions_not_found)
  have b6: "create_dir P (strip_protocol (strip_protocol path)) True s = (Inl e, s') \<longrightarrow>
      mkdir P path True s = (Inl (not_found_of e), s')"
    using r reraise_not_found [OF r] reraise_idem [of e]
    by (simp add: mkdir_def makedirs_def Let_def wrap_exceptions_def)
  have b7: "open_input_stream P path s = (Inl e, s') \<longrightarrow>
      arrow_open P path ''rb'' block_size s = (Inl (not_found_of e), s')" for path
    using r by (simp add: arrow_open_def arrow_open_body_def io_bind_def wrap_exceptions_not_found)
  have b8: "open_output_stream P path s = (Inl e, s') \<longrightarrow>
      arrow_open P path ''wb'' block_size s = (Inl (not_found_of e), s')" for path
    using r by (simp add: arrow_open_def arrow_open_body_def io_bind_def wrap_exceptions_not_found)
  have b9: "open_input_stream P (strip_protocol path) s = (Inl e, s') \<longrightarrow>
      fs_open P path ''rb'' block_size s = (Inl (not_found_of e), s')"
    using b7 [of "strip_protocol path"] by (simp add: fs_open_def)
  have b10: "open_output_stream P (strip_protocol path) s = (Inl e, s') \<longrightarrow>
      fs_open P path ''wb'' block_size s = (Inl (not_found_of e), s')"
    using b8 [of "strip_protocol path"] by (simp add: fs_open_def)
  have b11: "isdir p s = (Inl e, s') \<longrightarrow>
      rm P isdir path recursive maxdepth s = (Inl (not_found_of e), s')"
    using r by (simp add: rm_def rm_body_def Let_def p io_bind_def wrap_exceptions_not_found)
  have b12: "isdir p s = (Inr True, s1) \<and> delete_dir P p s1 = (Inl e, s') \<longrightarrow>
      rm P isdir path True maxdepth s = (Inl (not_found_of e), s')"
    using r by (simp add: rm_def rm_body_def Let_def p io_bind_def wrap_exceptions_not_found)
  have b13: "isdir p s = (Inr False, s1) \<and> delete_file P p s1 = (Inl e, s') \<longrightarrow>
      rm P isdir path recursive maxdepth s = (Inl (not_found_of e), s')"
    using r by (simp add: rm_def rm_body_def Let_def p io_bind_def wrap_exceptions_not_found)
  have b15: "cp_file_body P parent token path1 path2 s = (Inl e, s') \<longrightarrow>
      cp_file P parent token path1 path2 s = (Inl (not_found_of e), s')"
    using r by (simp add: cp_file_def wrap_exceptions_not_found)
  have b14: "open_input_stream P p1 s = (Inl e, s') \<longrightarrow>
      cp_file P parent token path1 path2 s = (Inl (not_found_of e), s')"
    using reraise_not_found [OF r] reraise_idem [of e]
    by (simp add: cp_file_def cp_file_body_def Let_def p1 arrow_open_def arrow_open_body_def
          io_bind_def wrap_exceptions_def)
  have b16: "arrow_open P p1 ''rb'' None s = (Inr lstream, s1) \<and>
    copy_to_temp P lstream tmp s1 = (Inr (), t) \<and>
    move P tmp p2 t = (Inl e, s2) \<and>
    delete_file P tmp s2 = (d, s3) \<and>
    (d = Inr () \<or> (\<exists>x. d = Inl x \<and> is_FileNotFoundError x)) \<and>
    stream_close P (af_stream lstream) s3 = (Inr (), s4) \<longrightarrow>
      cp_file P parent token path1 path2 s = (Inl (not_found_of e), s4)"
    using reraise_not_found [OF r]
    by (auto simp: cp_file_def cp_file_body_def Let_def p1 p2 tmp io_defs with_file_def
          try_except_def try_block_def cleanup_def)
  have b17: "arrow_open P p1 ''rb'' None s = (Inr lstream, s1) \<and>
    try_block P lstream tmp p2 s1 = (Inl e0, s2) \<and>
    delete_file P tmp s2 = (Inl e, s3) \<and> \<not> is_FileNotFoundError e \<and>
    stream_close P (af_stream lstream) s3 = (Inr (), s4) \<longrightarrow>
      cp_file P parent token path1 path2 s = (Inl (not_found_of e), s4)"
    using reraise_not_found [OF r]
    by (auto simp: cp_file_def cp_file_body_def Let_def p1 p2 tmp io_defs with_file_def
          try_except_def cleanup_def)
  have c1: "\<forall>x. get_file_info_selector P path s = (Inl x, s') \<longrightarrow>
      ls P path detail s = (Inl x, s')"
    by (simp add: ls_def io_bind_def)
  have c2: "\<forall>x. get_file_info P [strip_protocol path] s = (Inl x, s') \<longrightarrow>
      info P path s = (Inl x, s')" for path
    by (simp add: info_def io_bind_def Let_def)
  have c3: "\<forall>x. get_file_info P [strip_protocol (strip_protocol path)] s = (Inl x, s') \<longrightarrow>
      exists P path s = (if is_FileNotFoundError x then (Inr False, s') else (Inl x, s'))"
    using c2 [of "strip_protocol path"] by (simp add: exists_def Let_def)
  show ?thesis
    by (intro conjI)
      (rule a1 a2 a3 a4 a5 a6 a7 a8 a9 b1 b2 b3 b4 b5 b6 b7 b8 b9 b10 b11 b12 b13 b14 b15 b16 b17
         c1 c2 c3)+
qed


theorem wrapped_operations_reclassify_witness:
  "reclassifiable (Exn OSError [PStr ''Path does not exist''] None) \<and>
   \<not> reclassifiable (Exn FileNotFoundError [PInt 2, PStr ''Path does not exist''] None) \<and>
   mv (memory_fs (\<lambda>c. Some (Exn OSError [PStr ''Path does not exist''] None)))
       ''hdfs:///a'' ''/b/'' Map.empty
     = (Inl (Exn FileNotFoundError [PInt 2, PStr ''Path does not exist''] None), Map.empty) \<and>
   rm_file (memory_fs (\<lambda>c. Some (Exn OSError [PStr ''Path does not exist''] None)))
       ''hdfs:///a'' Map.empty
     = (Inl (Exn FileNotFoundError [PInt 2, PStr ''Path does not exist''] None), Map.empty) \<and>
   rmdir (memory_fs (\<lambda>c. Some (Exn OSError [PStr ''Path does not exist''] None)))
       ''hdfs:///a'' Map.empty
     = (Inl (Exn FileNotFoundError [PInt 2, PStr ''Path does not exist''] None), Map.empty) \<and>
   makedirs (memory_fs (\<lambda>c. Some (Exn OSError [PStr ''Path does not exist''] None)))
       ''hdfs:///a'' False Map.empty
     = (Inl (Exn FileNotFoundError [PInt 2, PStr ''Path does not exist''] None), Map.empty) \<and>
   mkdir (memory_fs (\<lambda>c. Some (Exn OSError [PStr ''Path does not exist''] None)))
       ''hdfs:///a'' False Map.empty
     = (Inl (Exn FileNotFoundError [PInt 2, PStr ''Path does not exist''] None), Map.empty) \<and>
   mkdir (memory_fs (\<lambda>c. Some (Exn OSError [PStr ''Path does not exist''] None)))
       ''hdfs:///a'' True Map.empty
     = (Inl (Exn FileNotFoundError [PInt 2, PStr ''Path does not exist''] None), Map.empty) \<and>
   arrow_open (memory_fs (\<lambda>c. Some (Exn OSError [PStr ''Path does not exist''] None)))
       ''hdfs:///a'' ''rb'' None Map.empty
     = (Inl (Exn FileNotFoundError [PInt 2, PStr ''Path does not exist''] None), Map.empty) \<and>
   arrow_open (memory_fs (\<lambda>c. Some (Exn OSError [PStr ''Path does not exist''] None)))
       ''hdfs:///a'' ''wb'' None Map.empty
     = (Inl (Exn FileNotFoundError [PInt 2, PStr ''Path does not exist''] None), Map.empty) \<and>
   fs_open (memory_fs (\<lambda>c. Some (Exn OSError [PStr ''Path does not exist''] None)))
       ''hdfs:///a'' ''rb'' None Map.empty
     = (Inl (Exn FileNotFoundError [PInt 2, PStr ''Path does not exist''] None), Map.empty) \<and>
   fs_open (memory_fs (\<lambda>c. Some (Exn OSError [PStr ''Path does not exist''] None)))
       ''hdfs:///a'' ''wb'' None Map.empty
     = (Inl (Exn FileNotFoundError [PInt 2, PStr ''Path does not exist''] None), Map.empty) \<and>
   rm (memory_fs (\<lambda>c. Some (Exn OSError [PStr ''Path does not exist''] None)))
       (\<lambda>p. Pair (Inl (Exn OSError [PStr ''Path does not exist''] None))) ''hdfs:///a'' False None Map.empty
     = (Inl (Exn FileNotFoundError [PInt 2, PStr ''Path does not exist''] None), Map.empty) \<and>
   rm (memory_fs (\<lambda>c. Some (Exn OSError [PStr ''Path does not exist''] None)))
       (isdir_only ''/a'') ''hdfs:///a'' True None Map.empty
     = (Inl (Exn FileNotFoundError [PInt 2, PStr ''Path does not exist''] None), Map.empty) \<and>
   rm (memory_fs (\<lambda>c. Some (Exn OSError [PStr ''Path does not exist''] None)))
       (isdir_only ''/d'') ''hdfs:///a'' False None Map.empty
     = (Inl (Exn FileNotFoundError [PInt 2, PStr ''Path does not exist''] None), Map.empty) \<and>
   cp_file (memory_fs (\<lambda>c. Some (Exn OSError [PStr ''Path does not exist''] None)))
       (\<lambda>p. ''/d'') example_token ''hdfs:///a'' ''/b/'' Map.empty
     = (Inl (Exn FileNotFoundError [PInt 2, PStr ''Path does not exist''] None), Map.empty) \<and>
   fst (cp_file (memory_fs (map_of [(Move example_tmp ''/d/y'',
                                     Exn OSError [PStr ''Path does not exist''] None)]))
       (\<lambda>p. ''/d'') example_token ''/a/x'' ''/d/y/'' example_files)
     = Inl (Exn FileNotFoundError [PInt 2, PStr ''Path does not exist''] None) \<and>
   fst (cp_file (memory_fs (map_of [(DeleteFile example_tmp,
                                     Exn OSError [PStr ''Path does not exist''] None),
                                    (CopyFileObj ''/a/x'' example_tmp,
                                     Exn OSError [PStr ''Connection reset''] None)]))
       (\<lambda>p. ''/d'') example_token ''/a/x'' ''/d/y/'' example_files)
     = Inl (Exn FileNotFoundError [PInt 2, PStr ''Path does not exist''] None) \<and>
   ls (memory_fs (\<lambda>c. Some (Exn OSError [PStr ''Path does not exist''] None)))
       ''hdfs:///a'' False Map.empty
     = (Inl (Exn OSError [PStr ''Path does not exist''] None), Map.empty) \<and>
   info (memory_fs (\<lambda>c. Some (Exn OSError [PStr ''Path does not exist''] None)))
       ''hdfs:///a'' Map.empty
     = (Inl (Exn OSError [PStr ''Path does not exist''] None), Map.empty) \<and>
   exists (memory_fs (\<lambda>c. Some (Exn OSError [PStr ''Path does not exist''] None)))
       ''hdfs:///a'' Map.empty
     = (Inl (Exn OSError [PStr ''Path does not exist''] None), Map.empty) \<and>
   exists (memory_fs (\<lambda>c. Some (Exn FileNotFoundError [PStr ''Path does not exist''] None)))
       ''hdfs:///a'' Map.empty
     = (Inr False, Map.empty)"
proof -
  let ?E = "Exn OSError [PStr ''Path does not exist''] None"
  let ?F = "Exn FileNotFoundError [PInt 2, PStr ''Path does not exist''] None"
  let ?N = "Exn FileNotFoundError [PStr ''Path does not exist''] None"
  let ?C = "Exn OSError [PStr ''Connection reset''] None"
  let ?Q = "memory_fs (\<lambda>c. Some ?E)"
  let ?QN = "memory_fs (\<lambda>c. Some ?N)"
  let ?M = "memory_fs (map_of [(Move example_tmp ''/d/y'', ?E)])"
  let ?D = "memory_fs (map_of [(DeleteFile example_tmp, ?E), (CopyFileObj ''/a/x'' example_tmp, ?C)])"
  let ?lf = "\<lparr>af_path = ''/a/x'', af_mode = ''rb'', af_stream = ''/a/x'', af_block_size = None\<rparr>"
  have r: "reclassifiable ?E" by (simp add: reclassifiable_def)
  have nf: "\<not> is_FileNotFoundError ?E" by (simp add: is_FileNotFoundError_def)
  have rn: "reclassifiable ?N" by (simp add: reclassifiable_def)
  have F: "not_found_of ?E = ?F" by (simp add: not_found_of_def ENOENT_def)
  have nF: "\<not> reclassifiable ?F" by (simp add: reclassifiable_def)
  have p1: "''/a'' = rstrip_slash (strip_protocol ''hdfs:///a'')"
    and p2: "''/b'' = rstrip_slash (strip_protocol ''/b/'')"
    and sp: "strip_protocol ''hdfs:///a'' = ''/a''" "strip_protocol ''/a'' = ''/a''"
    and q1: "''/a/x'' = rstrip_slash (strip_protocol ''/a/x'')"
    and q2: "''/d/y'' = rstrip_slash (strip_protocol ''/d/y/'')"
    by (simp_all add: strip_protocol_def rstrip_slash_def)
  have tmp: "tmp_name (\<lambda>p. ''/d'') example_token ''/b'' = tmp_name (\<lambda>p. ''/d'') example_token ''/b''"
    by simp
  have etmp: "example_tmp = tmp_name (\<lambda>p. ''/d'') example_token ''/d/y''"
    by (simp add: example_tmp_name)
  have all: "get_file_info_selector ?Q a Map.empty = (Inl ?E, Map.empty)"
      "get_file_info ?Q b Map.empty = (Inl ?E, Map.empty)"
      "open_input_stream ?Q a Map.empty = (Inl ?E, Map.empty)"
      "open_output_stream ?Q a Map.empty = (Inl ?E, Map.empty)"
      "move ?Q a c Map.empty = (Inl ?E, Map.empty)"
      "delete_file ?Q a Map.empty = (Inl ?E, Map.empty)"
      "delete_dir ?Q a Map.empty = (Inl ?E, Map.empty)"
      "create_dir ?Q a k Map.empty = (Inl ?E, Map.empty)" for a b c k
    by (simp_all add: memory_fs_def respond_def)
  have alln: "get_file_info ?QN b Map.empty = (Inl ?N, Map.empty)" for b
    by (simp add: memory_fs_def respond_def)
  note t = wrapped_operations_reclassify [where P = ?Q and e = ?E and s = Map.empty
      and s' = Map.empty and ?s1.0 = Map.empty
      and ?path1.0 = "''hdfs:///a''" and ?path2.0 = "''/b/''" and path = "''hdfs:///a''"
      and parent = "\<lambda>p. ''/d''" and token = example_token, OF p1 p2 tmp p1 r, unfolded F sp]
  from t all nf have A:
    "(mv ?Q ''hdfs:///a'' ''/b/'' Map.empty = (Inl ?F, Map.empty)) \<and>
     (rm_file ?Q ''hdfs:///a'' Map.empty = (Inl ?F, Map.empty)) \<and>
     (rmdir ?Q ''hdfs:///a'' Map.empty = (Inl ?F, Map.empty)) \<and>
     (makedirs ?Q ''hdfs:///a'' False Map.empty = (Inl ?F, Map.empty)) \<and>
     (mkdir ?Q ''hdfs:///a'' False Map.empty = (Inl ?F, Map.empty)) \<and>
     (mkdir ?Q ''hdfs:///a'' True Map.empty = (Inl ?F, Map.empty)) \<and>
     (arrow_open ?Q ''hdfs:///a'' ''rb'' None Map.empty = (Inl ?F, Map.empty)) \<and>
     (arrow_open ?Q ''hdfs:///a'' ''wb'' None Map.empty = (Inl ?F, Map.empty)) \<and>
     (fs_open ?Q ''hdfs:///a'' ''rb'' None Map.empty = (Inl ?F, Map.empty)) \<and>
     (fs_open ?Q ''hdfs:///a'' ''wb'' None Map.empty = (Inl ?F, Map.empty)) \<and>
     (cp_file ?Q (\<lambda>p. ''/d'') example_token ''hdfs:///a'' ''/b/'' Map.empty
       = (Inl ?F, Map.empty)) \<and>
     (ls ?Q ''hdfs:///a'' False Map.empty = (Inl ?E, Map.empty)) \<and>
     (info ?Q ''hdfs:///a'' Map.empty = (Inl ?E, Map.empty)) \<and>
     (exists ?Q ''hdfs:///a'' Map.empty = (Inl ?E, Map.empty))"
    by simp
  have i0: "(\<lambda>p. Pair (Inl ?E)) ''/a'' Map.empty = (Inl ?E :: exn + bool, Map.empty :: files)"
    by simp
  from t [where isdir = "\<lambda>p. Pair (Inl ?E)"] i0
  have a11: "rm ?Q (\<lambda>p. Pair (Inl ?E)) ''hdfs:///a'' False None Map.empty = (Inl ?F, Map.empty)"
    by simp
  have i1: "isdir_only ''/a'' ''/a'' Map.empty = (Inr True, Map.empty :: files)"
    and i2: "isdir_only ''/d'' ''/a'' Map.empty = (Inr False, Map.empty :: files)"
    by (simp_all add: isdir_only_def)
  from t [where isdir = "isdir_only ''/a''"] i1 all
  have a12: "rm ?Q (isdir_only ''/a'') ''hdfs:///a'' True None Map.empty = (Inl ?F, Map.empty)"
    by simp
  from t [where isdir = "isdir_only ''/d''"] i2 all
  have a13: "rm ?Q (isdir_only ''/d'') ''hdfs:///a'' False None Map.empty = (Inl ?F, Map.empty)"
    by simp
  \<comment> \<open>the move fails, the delete and the close of the source succeed\<close>
  let ?t = "example_files(example_tmp \<mapsto> ''data'')"
  let ?s3 = "example_files(example_tmp := None)"
  have src: "arrow_open ?M ''/a/x'' ''rb'' None example_files = (Inr ?lf, example_files)"
    by (simp add: arrow_open_def arrow_open_body_def io_defs memory_fs_def respond_def)
  have ct: "copy_to_temp ?M ?lf example_tmp example_files = (Inr (), ?t)"
    by (simp add: copy_to_temp_def fs_open_def example_tmp_strip arrow_open_def
          arrow_open_body_def io_defs with_file_def memory_fs_def respond_def content_def
          example_files_def example_tmp_neq)
  have mv: "move ?M example_tmp ''/d/y'' ?t = (Inl ?E, ?t)"
    by (simp add: memory_fs_def respond_def)
  have del: "delete_file ?M example_tmp ?t = (Inr (), ?s3)"
    by (simp add: memory_fs_def respond_def)
  have cl: "stream_close ?M (af_stream ?lf) ?s3 = (Inr (), ?s3)"
    by (simp add: memory_fs_def respond_def)
  note u = wrapped_operations_reclassify [where P = ?M and e = ?E and s = example_files
      and ?path1.0 = "''/a/x''" and ?path2.0 = "''/d/y/''" and path = "''/a/x''"
      and parent = "\<lambda>p. ''/d''" and token = example_token
      and lstream = ?lf and ?s1.0 = example_files and t = ?t and ?s2.0 = ?t
      and d = "Inr ()" and ?s3.0 = ?s3 and ?s4.0 = ?s3,
      OF q1 q2 etmp q1 r, unfolded F]
  from u src ct mv del cl
  have a15: "cp_file ?M (\<lambda>p. ''/d'') example_token ''/a/x'' ''/d/y/'' example_files
      = (Inl ?F, ?s3)"
    by simp
  \<comment> \<open>the copy fails, and the delete fails with the error the wrapper reclassifies\<close>
  let ?t2 = "example_files(example_tmp \<mapsto> ''d'')"
  have src2: "arrow_open ?D ''/a/x'' ''rb'' None example_files = (Inr ?lf, example_files)"
    by (simp add: arrow_open_def arrow_open_body_def io_defs memory_fs_def respond_def)
  have tb: "try_block ?D ?lf example_tmp ''/d/y'' example_files = (Inl ?C, ?t2)"
    by (simp add: try_block_def copy_to_temp_def fs_open_def example_tmp_strip arrow_open_def
          arrow_open_body_def io_defs with_file_def memory_fs_def respond_def content_def
          example_files_def example_tmp_neq)
  have del2: "delete_file ?D example_tmp ?t2 = (Inl ?E, ?t2)"
    by (simp add: memory_fs_def respond_def)
  have cl2: "stream_close ?D (af_stream ?lf) ?t2 = (Inr (), ?t2)"
    by (simp add: memory_fs_def respond_def)
  note v = wrapped_operations_reclassify [where P = ?D and e = ?E and s = example_files
      and ?path1.0 = "''/a/x''" and ?path2.0 = "''/d/y/''" and path = "''/a/x''"
      and parent = "\<lambda>p. ''/d''" and token = example_token
      and lstream = ?lf and ?s1.0 = example_files and ?e0.0 = ?C and ?s2.0 = ?t2
      and ?s3.0 = ?t2 and ?s4.0 = ?t2,
      OF q1 q2 etmp q1 r, unfolded F]
  from v src2 tb del2 nf cl2
  have a16: "cp_file ?D (\<lambda>p. ''/d'') example_token ''/a/x'' ''/d/y/'' example_files
      = (Inl ?F, ?t2)"
    by simp
  have fn: "is_FileNotFoundError ?N" by (simp add: is_FileNotFoundError_def)
  note w = wrapped_operations_reclassify [where P = ?QN and e = ?N and s = Map.empty
      and s' = Map.empty and ?path1.0 = "''hdfs:///a''" and ?path2.0 = "''/b/''"
      and path = "''hdfs:///a''" and parent = "\<lambda>p. ''/d''" and token = example_token,
      OF p1 p2 tmp p1 rn, unfolded sp]
  from w alln fn have c4: "exists ?QN ''hdfs:///a'' Map.empty = (Inr False, Map.empty)" by simp
  show ?thesis
    using r nF A a11 a12 a13 a15 a16 c4
    by (simp only: fst_conv simp_thms)
qed


text \<open>
  \<^verbatim>\<open>ls\<close>, \<^verbatim>\<open>info\<close> and \<^verbatim>\<open>exists\<close> call the provider outside the
  wrapper: an \<^verbatim>\<open>OSError\<close> with the message \<^verbatim>\<open>Path /x does not exist\<close> of the
  provider's lookup leaves each of them as it is, and it is no
  \<^verbatim>\<open>FileNotFoundError\<close>.
\<close>

theorem unwrapped_operations_counterexample:
  "reclassifiable (Exn OSError [PStr ''Path /x does not exist''] None) \<and>
   \<not> is_FileNotFoundError (Exn OSError [PStr ''Path /x does not exist''] None) \<and>
   ls (memory_fs (map_of [(GetFileInfoSelector ''/x'', Exn OSError [PStr ''Path /x does not exist''] None)]))
       ''/x'' False Map.empty
     = (Inl (Exn OSError [PStr ''Path /x does not exist''] None), Map.empty) \<and>
   info (memory_fs (map_of [(GetFileInfo [''/x''], Exn OSError [PStr ''Path /x does not exist''] None)]))
       ''/x'' Map.empty
     = (Inl (Exn OSError [PStr ''Path /x does not exist''] None), Map.empty) \<and>
   exists (memory_fs (map_of [(GetFileInfo [''/x''], Exn OSError [PStr ''Path /x does not exist''] None)]))
       ''/x'' Map.empty
     = (Inl (Exn OSError [PStr ''Path /x does not exist''] None), Map.empty)"
  by (simp add: reclassifiable_def is_FileNotFoundError_def ls_def info_def exists_def
        strip_protocol_def io_bind_def memory_fs_def respond_def Let_def)

subsection \<open>Which operations normalise the path\<close>

text \<open>
  What a provider that records its calls has recorded after a call of the adapter:
  every call of the adapter only appends to the log, and a call that returns has made
  each of its provider calls.
\<close>

lemma recording_simps:
  "get_file_info_selector (recording P) p = log_call (GetFileInfoSelector p) (get_file_info_selector P p)"
  "get_file_info (recording P) ps = log_call (GetFileInfo ps) (get_file_info P ps)"
  "open_input_stream (recording P) p = log_call (OpenInputStream p) (open_input_stream P p)"
  "open_output_stream (recording P) p = log_call (OpenOutputStream p) (open_output_stream P p)"
  "move (recording P) a b = log_call (Move a b) (move P a b)"
  "delete_file (recording P) p = log_call (DeleteFile p) (delete_file P p)"
  "delete_dir (recording P) p = log_call (DeleteDir p) (delete_dir P p)"
  "create_dir (recording P) p r = log_call (CreateDir p r) (create_dir P p r)"
  "stream_close (recording P) h = log_call (StreamClose h) (stream_close P h)"
  "copyfileobj (recording P) x y = log_call (CopyFileObj x y) (copyfileobj P x y)"
  by (simp_all add: recording_def)

lemma log_call_apply:
  "log_call c m (s, calls) = (fst (m s), (snd (m s), calls @ [c]))"
  by (simp add: log_call_def split: prod.splits)

lemma log_callE:
  "log_call c m (s, calls) = (r, (s', calls')) \<Longrightarrow> calls' = calls @ [c] \<and> m s = (r, s')"
  by (simp add: log_call_apply prod_eq_iff)

lemma snd_snd_wrap: "snd (snd (wrap_exceptions f x)) = snd (snd (f x))"
  by (simp add: wrap_exceptions_def split: prod.splits sum.splits)

lemma growsD: "grows m \<Longrightarrow> \<exists>rest. snd (snd (m (s, calls))) = calls @ rest"
  by (simp add: grows_def)

lemma grows_log_call: "grows (log_call c m)"
  by (simp add: grows_def log_call_apply)

lemma grows_return: "grows (io_return v)" and grows_raise: "grows (io_raise e)"
  by (simp_all add: grows_def io_return_def io_raise_def)

lemma grows_wrap: "grows m \<Longrightarrow> grows (wrap_exceptions m)"
  by (simp add: grows_def snd_snd_wrap)

lemma grows_bind:
  assumes "grows m" and "\<And>v. grows (f v)"
  shows "grows (io_bind m f)"
  unfolding grows_def
proof (intro allI)
  fix s calls
  obtain r s1 c1 where m: "m (s, calls) = (r, (s1, c1))" by (metis prod.exhaust)
  from growsD [OF assms(1), of s calls] m obtain r1 where c1: "c1 = calls @ r1" by auto
  show "\<exists>rest. snd (snd (io_bind m f (s, calls))) = calls @ rest"
  proof (cases r)
    case (Inl e)
    with m c1 show ?thesis by (simp add: io_bind_def)
  next
    case (Inr v)
    from growsD [OF assms(2), of v s1 c1] obtain r2
      where "snd (snd (f v (s1, c1))) = c1 @ r2" by blast
    with m c1 Inr show ?thesis by (simp add: io_bind_def)
  qed
qed

lemma grows_with_file:
  assumes "grows body"
  shows "grows (with_file (recording P) f body)"
  unfolding grows_def
proof (intro allI)
  fix s calls
  obtain r s1 c1 where b: "body (s, calls) = (r, (s1, c1))" by (metis prod.exhaust)
  from growsD [OF assms, of s calls] b obtain r1 where c1: "c1 = calls @ r1" by auto
  show "\<exists>rest. snd (snd (with_file (recording P) f body (s, calls))) = calls @ rest"
    using b c1
    by (simp add: with_file_def recording_simps log_call_apply split: sum.splits)
qed

lemma grows_arrow_open: "grows (arrow_open (recording P) path mode block_size)"
  unfolding arrow_open_def arrow_open_body_def
  by (intro grows_wrap) (simp add: grows_bind grows_return grows_raise recording_simps grows_log_call)

lemma grows_copy_to_temp: "grows (copy_to_temp (recording P) lf tmp)"
  unfolding copy_to_temp_def fs_open_def
  by (intro grows_bind grows_arrow_open grows_with_file) (simp add: recording_simps grows_log_call)

lemma grows_try_block: "grows (try_block (recording P) lf tmp p2)"
  unfolding try_block_def
  by (intro grows_bind grows_copy_to_temp) (simp add: recording_simps grows_log_call)

lemma grows_try_except: "grows (try_except (recording P) lf tmp p2)"
  unfolding grows_def
proof (intro allI)
  fix s calls
  obtain r s1 c1 where b: "try_block (recording P) lf tmp p2 (s, calls) = (r, (s1, c1))"
    by (metis prod.exhaust)
  from growsD [OF grows_try_block, of P lf tmp p2 s calls] b
  obtain r1 where c1: "c1 = calls @ r1" by auto
  show "\<exists>rest. snd (snd (try_except (recording P) lf tmp p2 (s, calls))) = calls @ rest"
    using b c1
    by (simp add: try_except_def cleanup_def recording_simps log_call_apply
          split: sum.splits)
qed

lemma cp_file_log_prefix:
  "\<exists>rest. snd (snd (cp_file (recording P) parent token path1 path2 (s, calls)))
      = calls @ OpenInputStream (rstrip_slash (strip_protocol path1)) # rest"
proof -
  let ?p1 = "rstrip_slash (strip_protocol path1)"
  let ?p2 = "rstrip_slash (strip_protocol path2)"
  let ?tmp = "tmp_name parent token ?p2"
  let ?c1 = "calls @ [OpenInputStream ?p1]"
  obtain r s1 where o: "open_input_stream P ?p1 s = (r, s1)" by (cases "open_input_stream P ?p1 s")
  show ?thesis
  proof (cases r)
    case (Inl e)
    with o show ?thesis
      by (simp add: cp_file_def cp_file_body_def Let_def arrow_open_def arrow_open_body_def
            io_defs recording_simps log_call_apply)
  next
    case (Inr h)
    let ?lf = "\<lparr>af_path = ?p1, af_mode = ''rb'', af_stream = h, af_block_size = None\<rparr>"
    have g: "grows (with_file (recording P) ?lf (try_except (recording P) ?lf ?tmp ?p2))"
      by (intro grows_with_file grows_try_except)
    from growsD [OF g, of s1 ?c1] obtain rest
      where "snd (snd (with_file (recording P) ?lf (try_except (recording P) ?lf ?tmp ?p2) (s1, ?c1)))
               = ?c1 @ rest" by blast
    with o Inr show ?thesis
      unfolding cp_file_def snd_snd_wrap
      by (simp add: cp_file_body_def Let_def arrow_open_def arrow_open_body_def
            io_defs recording_simps log_call_apply)
  qed
qed


lemma io_bind_InrE:
  "io_bind m f x = (Inr v, y) \<Longrightarrow> \<exists>u z. m x = (Inr u, z) \<and> f u z = (Inr v, y)"
  by (auto simp: io_bind_def split: prod.splits sum.splits)

lemma wrap_exceptions_InrE: "wrap_exceptions f x = (Inr v, y) \<Longrightarrow> f x = (Inr v, y)"
  by (auto simp: wrap_exceptions_def split: prod.splits sum.splits)

lemma with_file_InrE:
  "with_file P f body x = (Inr v, y) \<Longrightarrow>
     \<exists>z. body x = (Inr v, z) \<and> stream_close P (af_stream f) z = (Inr (), y)"
  by (auto simp: with_file_def split: prod.splits sum.splits)

lemma try_except_InrE:
  "try_except P lf tmp p2 x = (Inr v, y) \<Longrightarrow> try_block P lf tmp p2 x = (Inr v, y)"
  by (auto simp: try_except_def cleanup_def split: prod.splits sum.splits if_splits)

lemma arrow_open_recording_InrE:
  assumes "arrow_open (recording P) path mode block_size (s, calls) = (Inr f, (s', calls'))"
  shows "af_path f = path \<and>
         (mode = ''rb'' \<and> calls' = calls @ [OpenInputStream path] \<or>
          mode = ''wb'' \<and> calls' = calls @ [OpenOutputStream path])"
  using wrap_exceptions_InrE [OF assms [unfolded arrow_open_def]]
  by (auto simp: arrow_open_body_def io_bind_def io_return_def io_raise_def recording_simps
        log_call_apply split: if_splits prod.splits sum.splits)

lemma copy_to_temp_log_success:
  assumes "copy_to_temp (recording P) lf tmp (s, calls) = (Inr (), (s', calls'))"
  shows "\<exists>hr. calls' = calls @ [OpenOutputStream (strip_protocol tmp),
                                 CopyFileObj (af_stream lf) hr, StreamClose hr]"
proof -
  from io_bind_InrE [OF assms [unfolded copy_to_temp_def]]
  obtain rf s1 c1 where o: "fs_open (recording P) tmp ''wb'' None (s, calls) = (Inr rf, (s1, c1))"
    and w: "with_file (recording P) rf
              (copyfileobj (recording P) (af_stream lf) (af_stream rf)) (s1, c1)
            = (Inr (), (s', calls'))"
    by (metis prod.exhaust)
  from arrow_open_recording_InrE [OF o [unfolded fs_open_def]]
  have c1: "c1 = calls @ [OpenOutputStream (strip_protocol tmp)]" by simp
  from with_file_InrE [OF w] obtain s2 c2
    where c: "copyfileobj (recording P) (af_stream lf) (af_stream rf) (s1, c1) = (Inr (), (s2, c2))"
      and cl: "stream_close (recording P) (af_stream rf) (s2, c2) = (Inr (), (s', calls'))"
    by (metis prod.exhaust)
  from c have c2: "c2 = c1 @ [CopyFileObj (af_stream lf) (af_stream rf)]"
    by (simp add: recording_simps log_call_apply)
  from cl have "calls' = c2 @ [StreamClose (af_stream rf)]"
    by (simp add: recording_simps log_call_apply)
  with c1 c2 show ?thesis by simp
qed

lemma cp_file_log_success:
  assumes "cp_file (recording P) parent token path1 path2 (s, calls) = (Inr (), (s', calls'))"
  shows "\<exists>hl hr. calls' = calls @
           [OpenInputStream (rstrip_slash (strip_protocol path1)),
            OpenOutputStream (strip_protocol (tmp_name parent token (rstrip_slash (strip_protocol path2)))),
            CopyFileObj hl hr, StreamClose hr,
            Move (tmp_name parent token (rstrip_slash (strip_protocol path2)))
                 (rstrip_slash (strip_protocol path2)),
            StreamClose hl]"
proof -
  let ?p1 = "rstrip_slash (strip_protocol path1)"
  let ?p2 = "rstrip_slash (strip_protocol path2)"
  let ?tmp = "tmp_name parent token ?p2"
  from wrap_exceptions_InrE [OF assms [unfolded cp_file_def]]
  have b: "io_bind (arrow_open (recording P) ?p1 ''rb'' None)
             (\<lambda>lstream. with_file (recording P) lstream
                (try_except (recording P) lstream ?tmp ?p2)) (s, calls) = (Inr (), (s', calls'))"
    by (simp add: cp_file_body_def Let_def)
  from io_bind_InrE [OF b] obtain lf s1 c1
    where o: "arrow_open (recording P) ?p1 ''rb'' None (s, calls) = (Inr lf, (s1, c1))"
      and w: "with_file (recording P) lf (try_except (recording P) lf ?tmp ?p2) (s1, c1)
                = (Inr (), (s', calls'))"
    by (metis prod.exhaust)
  from arrow_open_recording_InrE [OF o] have c1: "c1 = calls @ [OpenInputStream ?p1]" by simp
  from with_file_InrE [OF w] obtain s2 c2
    where t: "try_except (recording P) lf ?tmp ?p2 (s1, c1) = (Inr (), (s2, c2))"
      and cl: "stream_close (recording P) (af_stream lf) (s2, c2) = (Inr (), (s', calls'))"
    by (metis prod.exhaust)
  from io_bind_InrE [OF try_except_InrE [OF t, unfolded try_block_def]] obtain s3 c3
    where ct: "copy_to_temp (recording P) lf ?tmp (s1, c1) = (Inr (), (s3, c3))"
      and m: "move (recording P) ?tmp ?p2 (s3, c3) = (Inr (), (s2, c2))"
    by (metis (full_types) old.unit.exhaust prod.exhaust)
  from copy_to_temp_log_success [OF ct] obtain hr
    where c3: "c3 = c1 @ [OpenOutputStream (strip_protocol ?tmp),
                          CopyFileObj (af_stream lf) hr, StreamClose hr]" by blast
  from m have c2: "c2 = c3 @ [Move ?tmp ?p2]" by (simp add: recording_simps log_call_apply)
  from cl have "calls' = c2 @ [StreamClose (af_stream lf)]"
    by (simp add: recording_simps log_call_apply)
  with c1 c2 c3 show ?thesis by simp
qed

text \<open>
  C9. \<^verbatim>\<open>ls\<close> passes its path to the provider's selector as it is: a provider that
  records its calls has recorded the lookup of exactly that path, scheme prefix
  included. Every other operation hands the provider the stripped path: the log holds
  the lookup of the stripped path for \<^verbatim>\<open>info\<close>, \<^verbatim>\<open>exists\<close> and the
  inherited \<^verbatim>\<open>isdir\<close>, the move of the two stripped paths for \<^verbatim>\<open>mv\<close>, the
  delete or the creation of the stripped path for \<^verbatim>\<open>rm_file\<close>, \<^verbatim>\<open>rmdir\<close>,
  \<^verbatim>\<open>rm\<close>, \<^verbatim>\<open>mkdir\<close> and \<^verbatim>\<open>makedirs\<close>, the opening of the stripped path
  for \<^verbatim>\<open>open\<close>, and for \<^verbatim>\<open>cp_file\<close> the opening of the stripped source first
  and, when it returns, the move onto the stripped destination. Each of them depends
  on a path only through \<^verbatim>\<open>strip_protocol\<close>.
\<close>

theorem ls_forwards_path_verbatim:
  assumes p1: "p1 = rstrip_slash (strip_protocol path1)"
      and p2: "p2 = rstrip_slash (strip_protocol path2)"
      and tmp: "tmp = tmp_name parent token p2"
      and np: "np = rstrip_slash (strip_protocol path)"
  shows
  "snd (snd (ls (recording P) path detail (s, calls))) = calls @ [GetFileInfoSelector path] \<and>
   snd (snd (info (recording P) path (s, calls))) = calls @ [GetFileInfo [strip_protocol path]] \<and>
   snd (snd (exists (recording P) path (s, calls)))
     = calls @ [GetFileInfo [strip_protocol (strip_protocol path)]] \<and>
   snd (snd (mv (recording P) path1 path2 (s, calls))) = calls @ [Move p1 p2] \<and>
   snd (snd (rm_file (recording P) path (s, calls))) = calls @ [DeleteFile (strip_protocol path)] \<and>
   snd (snd (rmdir (recording P) path (s, calls))) = calls @ [DeleteDir (strip_protocol path)] \<and>
   snd (snd (makedirs (recording P) path exist_ok (s, calls)))
     = calls @ [CreateDir (strip_protocol path) True] \<and>
   snd (snd (mkdir (recording P) path False (s, calls)))
     = calls @ [CreateDir (strip_protocol path) False] \<and>
   snd (snd (mkdir (recording P) path True (s, calls)))
     = calls @ [CreateDir (strip_protocol (strip_protocol path)) True] \<and>
   snd (snd (fs_open (recording P) path ''rb'' block_size (s, calls)))
     = calls @ [OpenInputStream (strip_protocol path)] \<and>
   snd (snd (fs_open (recording P) path ''wb'' block_size (s, calls)))
     = calls @ [OpenOutputStream (strip_protocol path)] \<and>
   snd (snd (inherited_isdir (recording P) path (s, calls)))
     = calls @ [GetFileInfo [strip_protocol path]] \<and>
   (isdir np (s, calls) = (Inr True, (s1, calls1)) \<longrightarrow>
      snd (snd (rm (recording P) isdir path True maxdepth (s, calls))) = calls1 @ [DeleteDir np] \<and>
      snd (snd (rm (recording P) isdir path False maxdepth (s, calls))) = calls1) \<and>
   (isdir np (s, calls) = (Inr False, (s1, calls1)) \<longrightarrow>
      snd (snd (rm (recording P) isdir path recursive maxdepth (s, calls)))
        = calls1 @ [DeleteFile np]) \<and>
   (\<exists>rest. snd (snd (cp_file (recording P) parent token path1 path2 (s, calls)))
              = calls @ OpenInputStream p1 # rest) \<and>
   (cp_file (recording P) parent token path1 path2 (s, calls) = (Inr (), (s', calls')) \<longrightarrow>
      (\<exists>hl hr. calls' = calls @
         [OpenInputStream p1, OpenOutputStream (strip_protocol tmp), CopyFileObj hl hr,
          StreamClose hr, Move tmp p2, StreamClose hl])) \<and>
   (strip_protocol p = strip_protocol q \<longrightarrow>
      info P p = info P q \<and>
      exists P p = exists P q \<and>
      cp_file P parent token p b = cp_file P parent token q b \<and>
      cp_file P parent token a p = cp_file P parent token a q \<and>
      mv P p b = mv P q b \<and>
      mv P a p = mv P a q \<and>
      rm_file P p = rm_file P q \<and>
      rm P isdir' p = rm P isdir' q \<and>
      fs_open P p = fs_open P q \<and>
      mkdir P p = mkdir P q \<and>
      makedirs P p = makedirs P q \<and>
      rmdir P p = rmdir P q)"
proof -
  note ev = io_bind_def io_return_def io_raise_def recording_simps log_call_apply Let_def
  have l1: "snd (snd (ls (recording P) path detail (s, calls))) = calls @ [GetFileInfoSelector path]"
    by (simp add: ls_def ev split: prod.splits sum.splits)
  have l2: "snd (snd (info (recording P) path (s, calls))) = calls @ [GetFileInfo [strip_protocol path]]"
    for path
    by (simp add: info_def ev split: prod.splits sum.splits)
  have l3: "snd (snd (exists (recording P) path (s, calls)))
     = calls @ [GetFileInfo [strip_protocol (strip_protocol path)]]"
    using l2 [of "strip_protocol path"]
    by (auto simp: exists_def Let_def split: prod.splits sum.splits)
  have l4: "snd (snd (mv (recording P) path1 path2 (s, calls))) = calls @ [Move p1 p2]"
    by (simp add: mv_def snd_snd_wrap p1 p2 ev)
  have l5: "snd (snd (rm_file (recording P) path (s, calls))) = calls @ [DeleteFile (strip_protocol path)]"
    by (simp add: rm_file_def snd_snd_wrap ev)
  have l6: "snd (snd (rmdir (recording P) path (s, calls))) = calls @ [DeleteDir (strip_protocol path)]"
    by (simp add: rmdir_def snd_snd_wrap ev)
  have l7: "snd (snd (makedirs (recording P) path exist_ok (s, calls)))
     = calls @ [CreateDir (strip_protocol path) True]" for path exist_ok
    by (simp add: makedirs_def snd_snd_wrap ev)
  have l8: "snd (snd (mkdir (recording P) path False (s, calls)))
     = calls @ [CreateDir (strip_protocol path) False]"
    by (simp add: mkdir_def snd_snd_wrap ev)
  have l9: "snd (snd (mkdir (recording P) path True (s, calls)))
     = calls @ [CreateDir (strip_protocol (strip_protocol path)) True]"
    using l7 [of "strip_protocol path" True] by (simp add: mkdir_def snd_snd_wrap Let_def)
  have l10: "snd (snd (fs_open (recording P) path ''rb'' block_size (s, calls)))
     = calls @ [OpenInputStream (strip_protocol path)]"
    by (simp add: fs_open_def arrow_open_def arrow_open_body_def snd_snd_wrap ev
          split: prod.splits sum.splits)
  have l11: "snd (snd (fs_open (recording P) path ''wb'' block_size (s, calls)))
     = calls @ [OpenOutputStream (strip_protocol path)]"
    by (simp add: fs_open_def arrow_open_def arrow_open_body_def snd_snd_wrap ev
          split: prod.splits sum.splits)
  have l12: "snd (snd (inherited_isdir (recording P) path (s, calls)))
     = calls @ [GetFileInfo [strip_protocol path]]"
    using l2 [of path] by (auto simp: inherited_isdir_def split: prod.splits sum.splits)
  have l13: "isdir np (s, calls) = (Inr True, (s1, calls1)) \<longrightarrow>
      snd (snd (rm (recording P) isdir path True maxdepth (s, calls))) = calls1 @ [DeleteDir np] \<and>
      snd (snd (rm (recording P) isdir path False maxdepth (s, calls))) = calls1"
    by (simp add: rm_def rm_body_def snd_snd_wrap np ev)
  have l14: "isdir np (s, calls) = (Inr False, (s1, calls1)) \<longrightarrow>
      snd (snd (rm (recording P) isdir path recursive maxdepth (s, calls)))
        = calls1 @ [DeleteFile np]"
    by (simp add: rm_def rm_body_def snd_snd_wrap np ev)
  have l15: "\<exists>rest. snd (snd (cp_file (recording P) parent token path1 path2 (s, calls)))
              = calls @ OpenInputStream p1 # rest"
    unfolding p1 by (rule cp_file_log_prefix)
  have l16: "cp_file (recording P) parent token path1 path2 (s, calls) = (Inr (), (s', calls')) \<longrightarrow>
      (\<exists>hl hr. calls' = calls @
         [OpenInputStream p1, OpenOutputStream (strip_protocol tmp), CopyFileObj hl hr,
          StreamClose hr, Move tmp p2, StreamClose hl])"
    unfolding p1 p2 tmp by (intro impI) (erule cp_file_log_success)
  have l17: "strip_protocol p = strip_protocol q \<longrightarrow>
      info P p = info P q \<and>
      exists P p = exists P q \<and>
      cp_file P parent token p b = cp_file P parent token q b \<and>
      cp_file P parent token a p = cp_file P parent token a q \<and>
      mv P p b = mv P q b \<and>
      mv P a p = mv P a q \<and>
      rm_file P p = rm_file P q \<and>
      rm P isdir' p = rm P isdir' q \<and>
      fs_open P p = fs_open P q \<and>
      mkdir P p = mkdir P q \<and>
      makedirs P p = makedirs P q \<and>
      rmdir P p = rmdir P q"
    by (simp add: info_def exists_def cp_file_def cp_file_body_def mv_def rm_file_def rm_def
          rm_body_def fs_open_def mkdir_def makedirs_def rmdir_def fun_eq_iff)
  show ?thesis
    by (intro conjI) (rule l1 l2 l3 l4 l5 l6 l7 l8 l9 l10 l11 l12 l13 l14 l15 l16 l17)+
qed

theorem ls_forwards_path_verbatim_witness:
  "snd (snd (ls (recording (memory_fs Map.empty)) ''hdfs://host/d'' False (Map.empty, [])))
     = [GetFileInfoSelector ''hdfs://host/d''] \<and>
   snd (snd (info (recording (memory_fs Map.empty)) ''hdfs://host/d'' (Map.empty, [])))
     = [GetFileInfo [''host/d'']] \<and>
   snd (snd (exists (recording (memory_fs Map.empty)) ''hdfs://host/d'' (Map.empty, [])))
     = [GetFileInfo [''host/d'']] \<and>
   snd (snd (mv (recording (memory_fs Map.empty)) ''hdfs://host/a/x'' ''hdfs://host/d/y/''
               (Map.empty, [])))
     = [Move ''host/a/x'' ''host/d/y''] \<and>
   snd (snd (rm_file (recording (memory_fs Map.empty)) ''hdfs://host/d'' (Map.empty, [])))
     = [DeleteFile ''host/d''] \<and>
   snd (snd (rmdir (recording (memory_fs Map.empty)) ''hdfs://host/d'' (Map.empty, [])))
     = [DeleteDir ''host/d''] \<and>
   snd (snd (makedirs (recording (memory_fs Map.empty)) ''hdfs://host/d'' False (Map.empty, [])))
     = [CreateDir ''host/d'' True] \<and>
   snd (snd (mkdir (recording (memory_fs Map.empty)) ''hdfs://host/d'' False (Map.empty, [])))
     = [CreateDir ''host/d'' False] \<and>
   snd (snd (mkdir (recording (memory_fs Map.empty)) ''hdfs://host/d'' True (Map.empty, [])))
     = [CreateDir ''host/d'' True] \<and>
   snd (snd (fs_open (recording (memory_fs Map.empty)) ''hdfs://host/d'' ''rb'' None (Map.empty, [])))
     = [OpenInputStream ''host/d''] \<and>
   snd (snd (fs_open (recording (memory_fs Map.empty)) ''hdfs://host/d'' ''wb'' None (Map.empty, [])))
     = [OpenOutputStream ''host/d''] \<and>
   snd (snd (rm (recording (memory_fs Map.empty)) (isdir_only ''host/d'') ''hdfs://host/d''
               True None (Map.empty, [])))
     = [DeleteDir ''host/d''] \<and>
   snd (snd (rm (recording (memory_fs Map.empty)) (isdir_only ''host'') ''hdfs://host/d''
               False None (Map.empty, [])))
     = [DeleteFile ''host/d''] \<and>
   fst (cp_file (recording (memory_fs Map.empty)) (\<lambda>p. ''/d'') example_token
          ''hdfs://host/a/x'' ''hdfs://host/d/y/'' (Map.empty, [])) = Inr () \<and>
   (\<exists>hl hr. snd (snd (cp_file (recording (memory_fs Map.empty)) (\<lambda>p. ''/d'') example_token
                         ''hdfs://host/a/x'' ''hdfs://host/d/y/'' (Map.empty, [])))
      = [OpenInputStream ''host/a/x'', OpenOutputStream example_tmp, CopyFileObj hl hr,
         StreamClose hr, Move example_tmp ''host/d/y'', StreamClose hl]) \<and>
   strip_protocol ''hdfs://host/d'' = strip_protocol ''s3://host/d'' \<and>
   rmdir (memory_fs Map.empty) ''hdfs://host/d'' = rmdir (memory_fs Map.empty) ''s3://host/d''"
proof -
  let ?R = "recording (memory_fs Map.empty)"
  let ?X = "cp_file ?R (\<lambda>p. ''/d'') example_token ''hdfs://host/a/x'' ''hdfs://host/d/y/''
              (Map.empty, [])"
  have p1: "''host/a/x'' = rstrip_slash (strip_protocol ''hdfs://host/a/x'')"
    and p2: "''host/d/y'' = rstrip_slash (strip_protocol ''hdfs://host/d/y/'')"
    and np: "''host/d'' = rstrip_slash (strip_protocol ''hdfs://host/d'')"
    and sp: "strip_protocol ''hdfs://host/d'' = ''host/d''" "strip_protocol ''host/d'' = ''host/d''"
    and e: "strip_protocol ''hdfs://host/d'' = strip_protocol ''s3://host/d''"
    by (simp_all add: strip_protocol_def rstrip_slash_def)
  have tmp: "example_tmp = tmp_name (\<lambda>p. ''/d'') example_token ''host/d/y''"
    by (simp add: example_tmp_name)
  have ok: "fst ?X = Inr ()"
    using example_tmp_neq
    by (simp add: cp_file_def cp_file_body_def try_except_def cleanup_def try_block_def
          copy_to_temp_def fs_open_def example_tmp_strip example_tmp_name arrow_open_def
          arrow_open_body_def io_defs with_file_def double_defs content_def
          p1 [symmetric] p2 [symmetric] Let_def)
  then have eq: "?X = (Inr (), (fst (snd ?X), snd (snd ?X)))"
    by (simp add: prod_eq_iff)
  have i1: "isdir_only ''host/d'' ''host/d'' (Map.empty :: files, [] :: string call list)
              = (Inr True, (Map.empty, []))"
    and i2: "isdir_only ''host'' ''host/d'' (Map.empty :: files, [] :: string call list)
              = (Inr False, (Map.empty, []))"
    by (simp_all add: isdir_only_def)
  note t = ls_forwards_path_verbatim [where P = "memory_fs Map.empty" and s = Map.empty
      and calls = "[]" and path = "''hdfs://host/d''" and ?path1.0 = "''hdfs://host/a/x''"
      and ?path2.0 = "''hdfs://host/d/y/''" and parent = "\<lambda>p. ''/d''" and token = example_token
      and p = "''hdfs://host/d''" and q = "''s3://host/d''"
      and ?s1.0 = Map.empty and ?calls1.0 = "[]"
      and s' = "fst (snd ?X)" and calls' = "snd (snd ?X)"
      and detail = False and exist_ok = False and block_size = None and maxdepth = None
      and recursive = False and a = "[]" and b = "[]" and isdir' = "isdir_only []",
      OF p1 p2 tmp np, unfolded sp example_tmp_strip]
  have e': "''host/d'' = strip_protocol ''s3://host/d''"
    by (simp add: strip_protocol_def)
  from t [where isdir = "isdir_only ''host/d''"] i1 eq e'
  have A: "snd (snd (ls ?R ''hdfs://host/d'' False (Map.empty, [])))
       = [GetFileInfoSelector ''hdfs://host/d''] \<and>
     snd (snd (info ?R ''hdfs://host/d'' (Map.empty, []))) = [GetFileInfo [''host/d'']] \<and>
     snd (snd (exists ?R ''hdfs://host/d'' (Map.empty, []))) = [GetFileInfo [''host/d'']] \<and>
     snd (snd (mv ?R ''hdfs://host/a/x'' ''hdfs://host/d/y/'' (Map.empty, [])))
       = [Move ''host/a/x'' ''host/d/y''] \<and>
     snd (snd (rm_file ?R ''hdfs://host/d'' (Map.empty, []))) = [DeleteFile ''host/d''] \<and>
     snd (snd (rmdir ?R ''hdfs://host/d'' (Map.empty, []))) = [DeleteDir ''host/d''] \<and>
     snd (snd (makedirs ?R ''hdfs://host/d'' False (Map.empty, []))) = [CreateDir ''host/d'' True] \<and>
     snd (snd (mkdir ?R ''hdfs://host/d'' False (Map.empty, []))) = [CreateDir ''host/d'' False] \<and>
     snd (snd (mkdir ?R ''hdfs://host/d'' True (Map.empty, []))) = [CreateDir ''host/d'' True] \<and>
     snd (snd (fs_open ?R ''hdfs://host/d'' ''rb'' None (Map.empty, [])))
       = [OpenInputStream ''host/d''] \<and>
     snd (snd (fs_open ?R ''hdfs://host/d'' ''wb'' None (Map.empty, [])))
       = [OpenOutputStream ''host/d''] \<and>
     snd (snd (rm ?R (isdir_only ''host/d'') ''hdfs://host/d'' True None (Map.empty, [])))
       = [DeleteDir ''host/d''] \<and>
     (\<exists>hl hr. snd (snd ?X)
        = [OpenInputStream ''host/a/x'', OpenOutputStream example_tmp, CopyFileObj hl hr,
           StreamClose hr, Move example_tmp ''host/d/y'', StreamClose hl]) \<and>
     rmdir (memory_fs Map.empty) ''hdfs://host/d'' = rmdir (memory_fs Map.empty) ''s3://host/d''"
    by simp
  from t [where isdir = "isdir_only ''host''"] i2
  have B: "snd (snd (rm ?R (isdir_only ''host'') ''hdfs://host/d'' False None (Map.empty, [])))
       = [DeleteFile ''host/d'']"
    by simp
  show ?thesis using A B ok e by (simp only: simp_thms)
qed

subsection \<open>\<^verbatim>\<open>cp_file\<close>\<close>

text \<open>The wrapper and the opening of a stream change the state as the wrapped call does.\<close>

lemma snd_wrap_exceptions: "snd (wrap_exceptions f s) = snd (f s)"
  by (simp add: wrap_exceptions_def split: prod.splits sum.splits)

lemma snd_arrow_open_rb:
  "snd (arrow_open P path ''rb'' block_size s) = snd (open_input_stream P path s)"
  by (simp add: arrow_open_def arrow_open_body_def snd_wrap_exceptions io_bind_def io_return_def
        split: prod.splits sum.splits)

lemma keepsD: "keeps obs m \<Longrightarrow> obs (snd (m s)) = obs s"
  by (simp add: keeps_def)

text \<open>Writing the temporary file leaves the destination as it was.\<close>

lemma copy_to_temp_keeps:
  assumes "leaves_destination P obs replaced (af_stream lstream) tmp path2"
  shows "obs (snd (copy_to_temp P lstream tmp s)) = obs s"
proof -
  let ?o = "open_output_stream P (strip_protocol tmp)"
  from assms have k1: "keeps obs ?o"
    and k2: "\<And>h s s'. ?o s = (Inr h, s') \<Longrightarrow>
               keeps obs (copyfileobj P (af_stream lstream) h) \<and> keeps obs (stream_close P h)"
    by (auto simp: leaves_destination_def)
  obtain r s' where o: "?o s = (r, s')" by (cases "?o s")
  from k1 o have s': "obs s' = obs s" using keepsD [of obs ?o s] by simp
  show ?thesis
  proof (cases r)
    case (Inl x)
    with o s' show ?thesis
      by (simp add: copy_to_temp_def fs_open_def arrow_open_def arrow_open_body_def io_defs)
  next
    case (Inr h)
    with o k2 have kc: "keeps obs (copyfileobj P (af_stream lstream) h)"
      and ks: "keeps obs (stream_close P h)" by blast+
    obtain rc sc where c: "copyfileobj P (af_stream lstream) h s' = (rc, sc)"
      by (cases "copyfileobj P (af_stream lstream) h s'")
    obtain rs ss where cl: "stream_close P h sc = (rs, ss)" by (cases "stream_close P h sc")
    from kc c have "obs sc = obs s'" using keepsD [OF kc, of s'] by simp
    moreover from ks cl have "obs ss = obs sc" using keepsD [OF ks, of sc] by simp
    ultimately have "obs ss = obs s" using s' by simp
    with Inr o c cl show ?thesis
      by (simp add: copy_to_temp_def fs_open_def arrow_open_def arrow_open_body_def io_defs
            with_file_def split: sum.splits)
  qed
qed

text \<open>
  C1. Let the source be open and the \<^verbatim>\<open>try\<close> block (opening the temporary file,
  copying, closing it, moving it) raise \<open>e\<close>. Then \<^verbatim>\<open>cp_file\<close> calls the
  provider's \<^verbatim>\<open>delete_file\<close> on the temporary file and closes the source, and
  it raises, through the normaliser: what closing the source raised, if it raised;
  else what the delete raised, unless that is a \<^verbatim>\<open>FileNotFoundError\<close>; else
  \<open>e\<close>. If the provider's calls on the source, the temporary file and the streams
  leave the destination as it was, and its move leaves it as it was or replaces it by
  the temporary file, then the destination is as it was before the call, or it is the
  temporary file as the completed copy left it.
\<close>

theorem cp_file_failure:
  assumes p1: "p1 = rstrip_slash (strip_protocol path1)"
      and p2: "p2 = rstrip_slash (strip_protocol path2)"
      and tmp: "tmp = tmp_name parent token p2"
      and src: "arrow_open P p1 ''rb'' None s = (Inr lstream, s1)"
      and fail: "try_block P lstream tmp p2 s1 = (Inl e, s2)"
      and del: "delete_file P tmp s2 = (d, s3)"
      and cl: "stream_close P (af_stream lstream) s3 = (c, s4)"
  shows "cp_file P parent token path1 path2 s =
           (Inl (reraise (case c of
                            Inl ce \<Rightarrow> ce
                          | Inr _ \<Rightarrow> (case d of
                                       Inl de \<Rightarrow> if is_FileNotFoundError de then e else de
                                     | Inr _ \<Rightarrow> e))), s4) \<and>
         (keeps obs (open_input_stream P p1) \<and>
          leaves_destination P obs replaced (af_stream lstream) tmp p2 \<longrightarrow>
            obs s4 = obs s \<or>
            (\<exists>t. copy_to_temp P lstream tmp s1 = (Inr (), t) \<and> obs s4 = replaced t))"
proof
  show "cp_file P parent token path1 path2 s =
           (Inl (reraise (case c of
                            Inl ce \<Rightarrow> ce
                          | Inr _ \<Rightarrow> (case d of
                                       Inl de \<Rightarrow> if is_FileNotFoundError de then e else de
                                     | Inr _ \<Rightarrow> e))), s4)"
    using src fail del cl
    by (simp add: cp_file_def cp_file_body_def p1 [symmetric] p2 [symmetric] tmp [symmetric]
          io_defs with_file_def try_except_def cleanup_def split: sum.splits)
next
  show "keeps obs (open_input_stream P p1) \<and>
          leaves_destination P obs replaced (af_stream lstream) tmp p2 \<longrightarrow>
            obs s4 = obs s \<or>
            (\<exists>t. copy_to_temp P lstream tmp s1 = (Inr (), t) \<and> obs s4 = replaced t)"
  proof
    assume h: "keeps obs (open_input_stream P p1) \<and>
          leaves_destination P obs replaced (af_stream lstream) tmp p2"
    then have ki: "keeps obs (open_input_stream P p1)"
      and ld: "leaves_destination P obs replaced (af_stream lstream) tmp p2" by blast+
    from ld have kd: "keeps obs (delete_file P tmp)"
      and kc: "keeps obs (stream_close P (af_stream lstream))"
      and mv: "\<And>t. obs (snd (move P tmp p2 t)) = obs t \<or> obs (snd (move P tmp p2 t)) = replaced t"
      by (auto simp: leaves_destination_def)
    have "s1 = snd (open_input_stream P p1 s)"
      using src snd_arrow_open_rb [of P p1 None s] by simp
    then have o1: "obs s1 = obs s" using keepsD [OF ki] by simp
    have o3: "obs s3 = obs s2" using keepsD [OF kd, of s2] del by simp
    have o4: "obs s4 = obs s3" using keepsD [OF kc, of s3] cl by simp
    obtain r t where ct: "copy_to_temp P lstream tmp s1 = (r, t)"
      by (cases "copy_to_temp P lstream tmp s1")
    have ot: "obs t = obs s1" using copy_to_temp_keeps [OF ld, of s1] ct by simp
    show "obs s4 = obs s \<or>
            (\<exists>t. copy_to_temp P lstream tmp s1 = (Inr (), t) \<and> obs s4 = replaced t)"
    proof (cases r)
      case (Inl x)
      with ct fail have "s2 = t" by (simp add: try_block_def io_bind_def)
      with o1 o3 o4 ot show ?thesis by simp
    next
      case (Inr u)
      with ct fail have m: "move P tmp p2 t = (Inl e, s2)" by (simp add: try_block_def io_bind_def)
      from mv [of t] m have "obs s2 = obs t \<or> obs s2 = replaced t" by simp
      with o1 o3 o4 ot ct Inr show ?thesis by auto
    qed
  qed
qed





text \<open>
  The copy fails after the first byte: the delete removes the temporary file, the
  error of the copy is raised, and the destination holds its older content.
\<close>

theorem cp_file_failure_witness:
  "leaves_destination
     (memory_fs (map_of [(CopyFileObj ''/a/x'' example_tmp, Exn OSError [PStr ''Connection reset''] None)]))
     (\<lambda>fs. fs ''/d/y'') (\<lambda>fs. fs example_tmp) ''/a/x'' example_tmp ''/d/y'' \<and>
   fst (cp_file
     (memory_fs (map_of [(CopyFileObj ''/a/x'' example_tmp, Exn OSError [PStr ''Connection reset''] None)]))
     (\<lambda>p. ''/d'') example_token ''/a/x'' ''/d/y/'' example_files)
     = Inl (Exn OSError [PStr ''Connection reset''] None) \<and>
   snd (cp_file
     (memory_fs (map_of [(CopyFileObj ''/a/x'' example_tmp, Exn OSError [PStr ''Connection reset''] None)]))
     (\<lambda>p. ''/d'') example_token ''/a/x'' ''/d/y/'' example_files) ''/d/y'' = Some ''old'' \<and>
   snd (cp_file
     (memory_fs (map_of [(CopyFileObj ''/a/x'' example_tmp, Exn OSError [PStr ''Connection reset''] None)]))
     (\<lambda>p. ''/d'') example_token ''/a/x'' ''/d/y/'' example_files) example_tmp = None"
proof -
  let ?E = "Exn OSError [PStr ''Connection reset''] None"
  let ?Q = "memory_fs (map_of [(CopyFileObj ''/a/x'' example_tmp, ?E)])"
  let ?lf = "\<lparr>af_path = ''/a/x'', af_mode = ''rb'', af_stream = ''/a/x'', af_block_size = None\<rparr>"
  let ?s2 = "example_files(example_tmp \<mapsto> ''d'')"
  let ?s3 = "example_files(example_tmp := None)"
  have p1: "''/a/x'' = rstrip_slash (strip_protocol ''/a/x'')"
    by (simp add: strip_protocol_def rstrip_slash_def)
  have p2: "''/d/y'' = rstrip_slash (strip_protocol ''/d/y/'')"
    by (simp add: strip_protocol_def rstrip_slash_def)
  have tmp: "example_tmp = tmp_name (\<lambda>p. ''/d'') example_token ''/d/y''"
    by (simp add: example_tmp_name)
  have src: "arrow_open ?Q ''/a/x'' ''rb'' None example_files = (Inr ?lf, example_files)"
    by (simp add: arrow_open_def arrow_open_body_def io_defs memory_fs_def respond_def)
  have fail: "try_block ?Q ?lf example_tmp ''/d/y'' example_files = (Inl ?E, ?s2)"
    by (simp add: try_block_def copy_to_temp_def fs_open_def example_tmp_strip arrow_open_def
          arrow_open_body_def io_defs with_file_def memory_fs_def respond_def content_def
          example_files_def example_tmp_neq)
  have del: "delete_file ?Q example_tmp ?s2 = (Inr (), ?s3)"
    by (simp add: memory_fs_def respond_def)
  have cl: "stream_close ?Q (af_stream ?lf) ?s3 = (Inr (), ?s3)"
    by (simp add: memory_fs_def respond_def)
  have ki: "keeps (\<lambda>fs. fs ''/d/y'') (open_input_stream ?Q ''/a/x'')"
    by (simp add: keeps_def memory_fs_def respond_def)
  have ld: "leaves_destination ?Q (\<lambda>fs. fs ''/d/y'') (\<lambda>fs. fs example_tmp) (af_stream ?lf)
              example_tmp ''/d/y''"
    using example_tmp_neq
    by (auto simp: leaves_destination_def keeps_def example_tmp_strip memory_fs_def respond_def
          split: option.splits)
  note t = cp_file_failure [OF p1 p2 tmp src fail del cl,
             of "\<lambda>fs. fs ''/d/y''" "\<lambda>fs. fs example_tmp"]
  from t have r: "cp_file ?Q (\<lambda>p. ''/d'') example_token ''/a/x'' ''/d/y/'' example_files
      = (Inl (reraise ?E), ?s3)" by simp
  from t ki ld have dj: "?s3 ''/d/y'' = example_files ''/d/y'' \<or>
      (\<exists>t. copy_to_temp ?Q ?lf example_tmp example_files = (Inr (), t) \<and> ?s3 ''/d/y'' = t example_tmp)"
    by blast
  have e: "reraise ?E = ?E" by (simp add: reraise_def)
  have o: "?s3 ''/d/y'' = Some ''old''" using example_tmp_neq by (simp add: example_files_def)
  show ?thesis using ld r e o dj by simp
qed

text \<open>
  The move fails with an input/output error and the delete of the temporary file
  with a permission error: \<^verbatim>\<open>cp_file\<close> raises the permission error, not the
  failure of the move.
\<close>

theorem cp_file_cleanup_masks_counterexample:
  "arrow_open
     (memory_fs (map_of [(Move example_tmp ''/d/y'', Exn OSError [PStr ''Input/output error''] None),
                         (DeleteFile example_tmp,
                          Exn (OtherOSError ''PermissionError'') [PInt 13, PStr ''Permission denied''] None)]))
     ''/a/x'' ''rb'' None example_files
     = (Inr \<lparr>af_path = ''/a/x'', af_mode = ''rb'', af_stream = ''/a/x'', af_block_size = None\<rparr>,
        example_files) \<and>
   fst (try_block
     (memory_fs (map_of [(Move example_tmp ''/d/y'', Exn OSError [PStr ''Input/output error''] None),
                         (DeleteFile example_tmp,
                          Exn (OtherOSError ''PermissionError'') [PInt 13, PStr ''Permission denied''] None)]))
     \<lparr>af_path = ''/a/x'', af_mode = ''rb'', af_stream = ''/a/x'', af_block_size = None\<rparr>
     (tmp_name (\<lambda>p. ''/d'') example_token ''/d/y'') ''/d/y'' example_files)
     = Inl (Exn OSError [PStr ''Input/output error''] None) \<and>
   fst (cp_file
     (memory_fs (map_of [(Move example_tmp ''/d/y'', Exn OSError [PStr ''Input/output error''] None),
                         (DeleteFile example_tmp,
                          Exn (OtherOSError ''PermissionError'') [PInt 13, PStr ''Permission denied''] None)]))
     (\<lambda>p. ''/d'') example_token ''/a/x'' ''/d/y'' example_files)
     = Inl (Exn (OtherOSError ''PermissionError'') [PInt 13, PStr ''Permission denied''] None)"
  using example_tmp_neq
  by (simp add: example_tmp_name cp_file_def cp_file_body_def try_except_def cleanup_def
        try_block_def copy_to_temp_def fs_open_def example_tmp_strip arrow_open_def
        arrow_open_body_def io_defs with_file_def memory_fs_def respond_def content_def
        example_files_def strip_protocol_def rstrip_slash_def reraise_def
        is_FileNotFoundError_def Let_def)

end
